theory Spec2Isabelle
  imports Complex_Main "HOL-Library.AList"
begin

section \<open>Effects: asynchronous calls that may reject\<close>

text \<open>
  Every method of the orchestrator is an \<open>async\<close> function over the fields of one
  object. A call either resolves with a value or rejects with an exception, and whatever
  it wrote to the object before rejecting stays written. A computation is therefore a
  function from the object to an outcome paired with the object afterwards. JavaScript
  numbers are taken as reals; log output is not part of the state. Each method is run
  to completion on its own (the timers never interleave two methods in this model).
  \<open>call_on\<close> is a synchronous call of a collaborator, which reads the object and may throw.
\<close>

datatype exn = Error string

type_synonym ('s, 'a) io = "'s \<Rightarrow> (exn + 'a) \<times> 's"

definition return_io :: "'a \<Rightarrow> ('s, 'a) io" where
  "return_io v s = (Inr v, s)"

definition throw :: "exn \<Rightarrow> ('s, 'a) io" where
  "throw e s = (Inl e, s)"

definition bind_io :: "('s, 'a) io \<Rightarrow> ('a \<Rightarrow> ('s, 'b) io) \<Rightarrow> ('s, 'b) io" where
  "bind_io f g s = (case f s of (Inl e, s') \<Rightarrow> (Inl e, s') | (Inr v, s') \<Rightarrow> g v s')"

definition try_catch :: "('s, 'a) io \<Rightarrow> (exn \<Rightarrow> ('s, 'a) io) \<Rightarrow> ('s, 'a) io" where
  "try_catch f h s = (case f s of (Inl e, s') \<Rightarrow> h e s' | (Inr v, s') \<Rightarrow> (Inr v, s'))"

definition modify :: "('s \<Rightarrow> 's) \<Rightarrow> ('s, unit) io" where
  "modify f s = (Inr (), f s)"

definition call_on :: "('s \<Rightarrow> exn + 'a) \<Rightarrow> ('s, 'a) io" where
  "call_on f m = (f m, m)"

section \<open>Shared data types\<close>

datatype side = Buy | Sell

record Order =
  o_id :: string
  o_symbol :: string
  o_side :: side
  o_price :: real
  o_size :: real

record OrderRequest =
  r_symbol :: string
  r_side :: side
  r_price :: real
  r_size :: real
  r_reduceOnly :: bool

record Account =
  equity :: real
  availableMargin :: real

record Market =
  m_id :: string
  m_symbol :: string
  m_base :: string
  tickSize :: real
  lotSize :: real

record MarketMakerConfig =
  symbol :: string
  spreadBps :: real
  takeProfitBps :: real
  orderSizeUsd :: real
  closeThresholdUsd :: real
  maxPositionUsd :: real
  fairPriceWindowMs :: real
  updateThrottleMs :: real
  minMarginRatio :: real

record Quote =
  bidPrice :: "real option"
  bidSize :: "real option"
  bidReduceOnly :: bool
  askPrice :: "real option"
  askSize :: "real option"
  askReduceOnly :: bool

section \<open>The exchange interface\<close>

text \<open>
  \<open>IExchange\<close> is an interface with one implementation per venue. The orchestrator
  holds the adapter object (of some type \<open>'x\<close>) and reaches it only through the
  interface's methods, given here as a record of the methods the modelled code calls.
\<close>

record 'x IExchange =
  disconnect :: "('x, unit) io"
  unsubscribeOrderbook :: "string \<Rightarrow> ('x, unit) io"
  getAccount :: "('x, Account) io"
  placeOrder :: "OrderRequest \<Rightarrow> ('x, string) io"
  cancelAllOrders :: "string \<Rightarrow> ('x, unit) io"

subsection \<open>A venue that records what it is asked\<close>

text \<open>
  Modelled from the spec: the venue behind the interface is not part of the sources. This
  one follows the adapter contract: it keeps the account's resting orders, logs every
  request in arrival order, and rejects the \<open>n\<close>-th request when \<open>faults n\<close> holds, so
  any pattern of venue failures can be chosen. A cancel-all that resolves leaves no
  resting order for the symbol; a placement that resolves rests the order. The
  unsubscription is the adapters' own: \<open>AftermathAdapter.unsubscribeOrderbook\<close> catches
  every failure, logs it and resolves.
\<close>

datatype call =
    Disconnect
  | UnsubscribeOrderbook string
  | GetAccount
  | PlaceOrder OrderRequest
  | CancelAllOrders string

record Venue =
  resting :: "Order list"
  account :: Account
  calls :: "call list"
  faults :: "nat \<Rightarrow> bool"
  orderIds :: "nat \<Rightarrow> string"

definition request :: "call \<Rightarrow> (Venue \<Rightarrow> 'a \<times> Venue) \<Rightarrow> (Venue, 'a) io" where
  "request c eff v =
     (let v' = v\<lparr>calls := calls v @ [c]\<rparr>
      in if faults v (length (calls v)) then (Inl (Error ''venue request failed''), v')
         else (case eff v' of (r, v'') \<Rightarrow> (Inr r, v'')))"

definition venue_placeOrder :: "OrderRequest \<Rightarrow> (Venue, string) io" where
  "venue_placeOrder r =
     request (PlaceOrder r)
       (\<lambda>v. let i = orderIds v (length (calls v))
            in (i, v\<lparr>resting := resting v @
                  [\<lparr>o_id = i, o_symbol = r_symbol r, o_side = r_side r,
                    o_price = r_price r, o_size = r_size r\<rparr>]\<rparr>))"

definition venue_cancelAllOrders :: "string \<Rightarrow> (Venue, unit) io" where
  "venue_cancelAllOrders sy =
     request (CancelAllOrders sy)
       (\<lambda>v. ((), v\<lparr>resting := filter (\<lambda>ord. o_symbol ord \<noteq> sy) (resting v)\<rparr>))"

definition venue_unsubscribeOrderbook :: "string \<Rightarrow> (Venue, unit) io" where
  "venue_unsubscribeOrderbook sy =
     try_catch (request (UnsubscribeOrderbook sy) (\<lambda>v. ((), v))) (\<lambda>error. return_io ())"

definition venue :: "Venue IExchange" where
  "venue =
     \<lparr>disconnect = request Disconnect (\<lambda>v. ((), v)),
      unsubscribeOrderbook = venue_unsubscribeOrderbook,
      getAccount = request GetAccount (\<lambda>v. (account v, v)),
      placeOrder = venue_placeOrder,
      cancelAllOrders = venue_cancelAllOrders\<rparr>"

text \<open>
  \<open>HyperliquidAdapter.unsubscribeOrderbook\<close> differs in one point: it takes the base of
  the symbol, the part before the first \<open>/\<close>, and throws for an empty base before its
  \<open>try\<close>; a failure of the unsubscription itself is caught and logged as well.
\<close>

definition baseOf :: "string \<Rightarrow> string" where
  "baseOf sy = takeWhile (\<lambda>c. c \<noteq> CHR ''/'') sy"

definition hl_unsubscribeOrderbook :: "string \<Rightarrow> (Venue, unit) io" where
  "hl_unsubscribeOrderbook sy =
     (if baseOf sy = [] then throw (Error ''Invalid symbol'')
      else try_catch (request (UnsubscribeOrderbook (baseOf sy)) (\<lambda>v. ((), v)))
             (\<lambda>error. return_io ()))"

definition hyperliquid_venue :: "Venue IExchange" where
  "hyperliquid_venue = venue\<lparr>unsubscribeOrderbook := hl_unsubscribeOrderbook\<rparr>"

section \<open>Collaborators of the orchestrator\<close>

text \<open>
  The fair-price calculator, the quoter and the position manager are objects the
  orchestrator only calls. Within one method they do not change (no sample or position
  sync arrives in between), so each is the record of what its methods return at that
  moment; a method that throws is a left value.
\<close>

record FairPriceCalculator =
  getFairPrice :: "exn + real option"
  feedDisconnect :: "exn + unit"
  feedConnected :: bool

record Quoter =
  generateQuotes :: "real \<Rightarrow> real \<Rightarrow> exn + Quote"
  isOrderStale :: "real \<Rightarrow> side \<Rightarrow> real \<Rightarrow> exn + bool"
  quoteToOrders :: "Quote \<Rightarrow> exn + OrderRequest list"

record PositionManager =
  isAtMax :: "exn + bool"
  getSignedNotional :: "exn + real"

section \<open>The market maker\<close>

text \<open>The lifecycle states; \<open>Failed\<close> is the state the source calls \<open>"error"\<close>.\<close>

datatype MarketMakerState = Stopped | Connecting | WarmingUp | Running | Paused | Failed

record 'x MarketMaker =
  config :: MarketMakerConfig
  exchange :: 'x
  fairPriceCalc :: FairPriceCalculator
  quoter :: Quoter
  positionManager :: PositionManager
  state :: MarketMakerState
  market :: "Market option"
  currentOrders :: "Order list"
  mainLoopInterval :: "nat option"
  orderSyncInterval :: "nat option"
  startTime :: real
  lastUpdateTime :: real
  errorCount :: nat
  maxErrors :: nat
  lastMarginRatio :: real
  marginCheckInterval :: "nat option"

text \<open>The field initialisers of the class; the constructor's arguments are the collaborators.\<close>

definition new_MarketMaker ::
  "MarketMakerConfig \<Rightarrow> 'x \<Rightarrow> FairPriceCalculator \<Rightarrow> Quoter \<Rightarrow> PositionManager \<Rightarrow> 'x MarketMaker" where
  "new_MarketMaker cfg x fp q pm =
     \<lparr>config = cfg, exchange = x, fairPriceCalc = fp, quoter = q, positionManager = pm,
      state = Stopped, market = None, currentOrders = [],
      mainLoopInterval = None, orderSyncInterval = None,
      startTime = 0, lastUpdateTime = 0, errorCount = 0, maxErrors = 10,
      lastMarginRatio = 1, marginCheckInterval = None\<rparr>"

definition on_exchange :: "('x, 'a) io \<Rightarrow> ('x MarketMaker, 'a) io" where
  "on_exchange f m = (case f (exchange m) of (r, x') \<Rightarrow> (r, m\<lparr>exchange := x'\<rparr>))"

definition on_feed :: "(FairPriceCalculator, 'a) io \<Rightarrow> ('x MarketMaker, 'a) io" where
  "on_feed f m = (case f (fairPriceCalc m) of (r, c') \<Rightarrow> (r, m\<lparr>fairPriceCalc := c'\<rparr>))"

text \<open>
  Modelled from the spec: \<open>FairPriceCalculator.disconnect\<close> is not part of the sources;
  it tears the subscription down unless it throws.
\<close>

definition fp_disconnect :: "(FairPriceCalculator, unit) io" where
  "fp_disconnect c =
     (case feedDisconnect c of
        Inl e \<Rightarrow> (Inl e, c)
      | Inr u \<Rightarrow> (Inr u, c\<lparr>feedConnected := False\<rparr>))"

text \<open>\<open>MarketMaker.cancelAllOrders\<close>\<close>

definition mm_cancelAllOrders :: "'x IExchange \<Rightarrow> ('x MarketMaker, unit) io" where
  "mm_cancelAllOrders I =
     try_catch
       (bind_io (\<lambda>m. on_exchange (cancelAllOrders I (symbol (config m))) m)
          (\<lambda>_. modify (\<lambda>m. m\<lparr>currentOrders := []\<rparr>)))
       (\<lambda>error. return_io ())"

text \<open>\<open>MarketMaker.handleError\<close>\<close>

definition handleError :: "'x MarketMaker \<Rightarrow> 'x MarketMaker" where
  "handleError m =
     (let m1 = m\<lparr>errorCount := errorCount m + 1\<rparr>
      in if errorCount m1 \<ge> maxErrors m1 then m1\<lparr>state := Paused\<rparr> else m1)"

text \<open>\<open>MarketMaker.checkMarginRatio\<close>\<close>

definition checkMarginRatio :: "'x IExchange \<Rightarrow> ('x MarketMaker, unit) io" where
  "checkMarginRatio I =
     try_catch
       (bind_io (on_exchange (getAccount I))
          (\<lambda>acct. bind_io
             (modify (\<lambda>m. if equity acct > 0
                           then m\<lparr>lastMarginRatio := availableMargin acct / equity acct\<rparr>
                           else m))
             (\<lambda>_ m.
                if lastMarginRatio m < minMarginRatio (config m) then
                  (if state m = Running
                   then mm_cancelAllOrders I (m\<lparr>state := Paused\<rparr>)
                   else (Inr (), m))
                else if state m = Paused
                        \<and> lastMarginRatio m \<ge> minMarginRatio (config m) * 1.2
                then (Inr (), m\<lparr>state := Running\<rparr>)
                else (Inr (), m))))
       (\<lambda>error. return_io ())"

text \<open>
  \<open>MarketMaker.shouldUpdateOrders\<close>. The quote argument is unused, as in the source. The
  \<open>for\<close> loop returns at the first stale order, so a later order is not looked at.
  \<open>!fairPrice\<close> is true of \<open>null\<close> and of \<open>0\<close>.
\<close>

fun anyStale :: "Quoter \<Rightarrow> real \<Rightarrow> Order list \<Rightarrow> exn + bool" where
  "anyStale q fairPrice [] = Inr False"
| "anyStale q fairPrice (ord # rest) =
     (case isOrderStale q (o_price ord) (o_side ord) fairPrice of
        Inl e \<Rightarrow> Inl e
      | Inr stale \<Rightarrow> if stale then Inr True else anyStale q fairPrice rest)"

definition shouldUpdateOrders :: "'x MarketMaker \<Rightarrow> Quote \<Rightarrow> exn + bool" where
  "shouldUpdateOrders m quote =
     (if length (currentOrders m) = 0 then Inr True
      else case getFairPrice (fairPriceCalc m) of
             Inl e \<Rightarrow> Inl e
           | Inr fairPrice \<Rightarrow>
               (case fairPrice of
                  None \<Rightarrow> Inr False
                | Some fp \<Rightarrow> if fp = 0 then Inr False
                             else anyStale (quoter m) fp (currentOrders m)))"

text \<open>The placement loop of \<open>runMainLoop\<close>: each order in its own \<open>try\<close>.\<close>

fun placeOrders :: "'x IExchange \<Rightarrow> OrderRequest list \<Rightarrow> ('x MarketMaker, unit) io" where
  "placeOrders I [] = return_io ()"
| "placeOrders I (ord # rest) =
     bind_io
       (try_catch
          (bind_io (on_exchange (placeOrder I ord)) (\<lambda>result. return_io ()))
          (\<lambda>error. return_io ()))
       (\<lambda>_. placeOrders I rest)"

text \<open>\<open>MarketMaker.runMainLoop\<close>; \<open>now\<close> is the reading of \<open>Date.now()\<close>.\<close>

definition runMainLoop :: "'x IExchange \<Rightarrow> real \<Rightarrow> ('x MarketMaker, unit) io" where
  "runMainLoop I now m =
     (if state m \<noteq> Running then (Inr (), m)
      else if now - lastUpdateTime m < updateThrottleMs (config m) then (Inr (), m)
      else
        bind_io (modify (\<lambda>m. m\<lparr>lastUpdateTime := now\<rparr>))
          (\<lambda>_. bind_io (call_on (\<lambda>m. getFairPrice (fairPriceCalc m)))
          (\<lambda>fairPrice.
             case fairPrice of
               None \<Rightarrow> return_io ()
             | Some fp \<Rightarrow>
                 if fp = 0 then return_io ()
                 else
                   bind_io (call_on (\<lambda>m. isAtMax (positionManager m)))
                   (\<lambda>atMax.
                      if atMax then return_io ()
                      else
                        bind_io (call_on (\<lambda>m. getSignedNotional (positionManager m)))
                        (\<lambda>signedNotional.
                        bind_io (call_on (\<lambda>m. generateQuotes (quoter m) fp signedNotional))
                        (\<lambda>quote.
                        bind_io (call_on (\<lambda>m. shouldUpdateOrders m quote))
                        (\<lambda>needsUpdate.
                           if \<not> needsUpdate then return_io ()
                           else
                             bind_io (mm_cancelAllOrders I)
                             (\<lambda>_. bind_io (call_on (\<lambda>m. quoteToOrders (quoter m) quote))
                             (\<lambda>orders. bind_io (placeOrders I orders)
                             (\<lambda>_. modify (\<lambda>m. m\<lparr>errorCount := 0\<rparr>))))))))))
          m)"



text \<open>\<open>MarketMaker.stop\<close>\<close>

definition clearIntervals :: "'x MarketMaker \<Rightarrow> 'x MarketMaker" where
  "clearIntervals m =
     (let m1 = (if mainLoopInterval m \<noteq> None then m\<lparr>mainLoopInterval := None\<rparr> else m);
          m2 = (if orderSyncInterval m1 \<noteq> None then m1\<lparr>orderSyncInterval := None\<rparr> else m1)
      in if marginCheckInterval m2 \<noteq> None then m2\<lparr>marginCheckInterval := None\<rparr> else m2)"

definition stop :: "'x IExchange \<Rightarrow> ('x MarketMaker, unit) io" where
  "stop I =
     bind_io (modify clearIntervals)
       (\<lambda>_. bind_io (try_catch (mm_cancelAllOrders I) (\<lambda>error. return_io ()))
       (\<lambda>_. bind_io
               (try_catch
                  (bind_io (\<lambda>m. on_exchange (unsubscribeOrderbook I (symbol (config m))) m)
                     (\<lambda>_. on_exchange (disconnect I)))
                  (\<lambda>error. return_io ()))
       (\<lambda>_. bind_io (try_catch (on_feed fp_disconnect) (\<lambda>error. return_io ()))
       (\<lambda>_. modify (\<lambda>m. m\<lparr>state := Stopped\<rparr>)))))"

section \<open>The Aftermath adapter\<close>

text \<open>
  The adapter keeps a cache from symbols to channel ids (a JavaScript \<open>Map\<close>, which
  keeps insertion order: an association list). Its helpers (\<open>getMarketBySymbol\<close>,
  \<open>getAccountCap\<close>, \<open>getOpenOrders\<close>, \<open>cancelOrders\<close>) are requests to the venue.

  Modelled from the spec: the helper modules are not part of the sources. Each helper is
  one logged request that the venue rejects when \<open>af_faults\<close> says so; a market lookup
  answers from the venue's listing, an open-order query answers the account's open
  orders of the channel, and a cancellation that resolves removes the listed orders.
\<close>

datatype af_request =
    GetMarketBySymbol string
  | GetAccountCap
  | FetchOpenOrders nat string
  | CancelOrders string "string list"

record Aftermath =
  symbolToChId :: "(string \<times> string) list"
  listing :: "string \<Rightarrow> Market option"
  accountNumber :: nat
  openOrders :: "string \<Rightarrow> Order list"
  requests :: "af_request list"
  af_faults :: "nat \<Rightarrow> bool"

definition af_request :: "af_request \<Rightarrow> (Aftermath \<Rightarrow> 'a \<times> Aftermath) \<Rightarrow> (Aftermath, 'a) io" where
  "af_request c eff a =
     (let a' = a\<lparr>requests := requests a @ [c]\<rparr>
      in if af_faults a (length (requests a)) then (Inl (Error ''request failed''), a')
         else (case eff a' of (r, a'') \<Rightarrow> (Inr r, a'')))"

definition getMarketBySymbol :: "string \<Rightarrow> (Aftermath, Market option) io" where
  "getMarketBySymbol sy = af_request (GetMarketBySymbol sy) (\<lambda>a. (listing a sy, a))"

definition getAccountCap :: "(Aftermath, nat) io" where
  "getAccountCap = af_request GetAccountCap (\<lambda>a. (accountNumber a, a))"

definition fetchOpenOrders :: "nat \<Rightarrow> string \<Rightarrow> (Aftermath, Order list) io" where
  "fetchOpenOrders acctNo chId =
     af_request (FetchOpenOrders acctNo chId) (\<lambda>a. (openOrders a chId, a))"

definition cancelOrders :: "string \<Rightarrow> string list \<Rightarrow> (Aftermath, unit) io" where
  "cancelOrders chId ids =
     af_request (CancelOrders chId ids)
       (\<lambda>a. ((), a\<lparr>openOrders := (openOrders a)
                      (chId := filter (\<lambda>ord. o_id ord \<notin> set ids) (openOrders a chId))\<rparr>))"

text \<open>\<open>AftermathAdapter.getChIdForSymbol\<close>; a cached empty string is falsy and is looked up again.\<close>

definition getChIdForSymbol :: "string \<Rightarrow> (Aftermath, string) io" where
  "getChIdForSymbol sy a =
     (case map_of (symbolToChId a) sy of
        Some cached \<Rightarrow>
          if cached \<noteq> [] then (Inr cached, a)
          else bind_io (getMarketBySymbol sy)
                 (\<lambda>mkt. case mkt of
                    None \<Rightarrow> throw (Error ''Market not found for symbol'')
                  | Some mk \<Rightarrow>
                      bind_io (modify (\<lambda>a. a\<lparr>symbolToChId :=
                                 AList.update (m_base mk) (m_id mk)
                                   (AList.update sy (m_id mk) (symbolToChId a))\<rparr>))
                        (\<lambda>_. return_io (m_id mk))) a
      | None \<Rightarrow>
          bind_io (getMarketBySymbol sy)
            (\<lambda>mkt. case mkt of
               None \<Rightarrow> throw (Error ''Market not found for symbol'')
             | Some mk \<Rightarrow>
                 bind_io (modify (\<lambda>a. a\<lparr>symbolToChId :=
                            AList.update (m_base mk) (m_id mk)
                              (AList.update sy (m_id mk) (symbolToChId a))\<rparr>))
                   (\<lambda>_. return_io (m_id mk))) a)"

text \<open>The body shared by both branches of \<open>cancelAllOrders\<close>: query, then cancel if any.\<close>

definition cancelOpenOrdersOf :: "string \<Rightarrow> (Aftermath, unit) io" where
  "cancelOpenOrdersOf chId =
     bind_io getAccountCap
       (\<lambda>acctNo. bind_io (fetchOpenOrders acctNo chId)
       (\<lambda>orders. if length orders > 0 then cancelOrders chId (map o_id orders)
                  else return_io ()))"

fun cancelInMarkets :: "string list \<Rightarrow> (Aftermath, unit) io" where
  "cancelInMarkets [] = return_io ()"
| "cancelInMarkets (chId # rest) =
     bind_io (try_catch (cancelOpenOrdersOf chId) (\<lambda>error. return_io ()))
       (\<lambda>_. cancelInMarkets rest)"

text \<open>
  \<open>AftermathAdapter.cancelAllOrders(symbol?)\<close>: an absent or empty symbol is falsy and
  takes the branch over all cached markets, in the order of a \<open>Set\<close> of the cache's values.
\<close>

definition aftermath_cancelAllOrders :: "string option \<Rightarrow> (Aftermath, unit) io" where
  "aftermath_cancelAllOrders arg =
     (case arg of
        Some sy \<Rightarrow>
          if sy \<noteq> [] then bind_io (getChIdForSymbol sy) cancelOpenOrdersOf
          else (\<lambda>a. cancelInMarkets (rev (remdups (rev (map snd (symbolToChId a))))) a)
      | None \<Rightarrow> (\<lambda>a. cancelInMarkets (rev (remdups (rev (map snd (symbolToChId a))))) a))"

text \<open>The channel id a symbol resolves to, by the cache or else by the venue's listing.\<close>

definition resolves :: "Aftermath \<Rightarrow> string \<Rightarrow> string option" where
  "resolves a sy =
     (case map_of (symbolToChId a) sy of
        Some cached \<Rightarrow> if cached \<noteq> [] then Some cached else map_option m_id (listing a sy)
      | None \<Rightarrow> map_option m_id (listing a sy))"

definition isCancel :: "af_request \<Rightarrow> bool" where
  "isCancel r = (case r of CancelOrders chId ids \<Rightarrow> True | _ \<Rightarrow> False)"

section \<open>Quote generation and exposure\<close>

text \<open>
  Modelled from the spec: the quoter (\<open>quoter.ts\<close>) and the position manager
  (\<open>position.ts\<close>) are not part of the sources. The definitions below follow section 4.2
  and 4.3 of the specification step by step: mode, half-spread and prices rounded to the
  tick (down for the bid, up for the ask), side suppression, size in base units rounded
  to the lot, and the reduce-only flags.
\<close>

definition roundDownTo :: "real \<Rightarrow> real \<Rightarrow> real" where
  "roundDownTo tick x = of_int \<lfloor>x / tick\<rfloor> * tick"

definition roundUpTo :: "real \<Rightarrow> real \<Rightarrow> real" where
  "roundUpTo tick x = of_int \<lceil>x / tick\<rceil> * tick"

definition toBaseUnits :: "Market \<Rightarrow> real \<Rightarrow> real \<Rightarrow> real" where
  "toBaseUnits mkt usd px = of_int (round (usd / px / lotSize mkt)) * lotSize mkt"

definition isCloseMode :: "MarketMakerConfig \<Rightarrow> real \<Rightarrow> bool" where
  "isCloseMode cfg signedExposureNotional = (\<bar>signedExposureNotional\<bar> \<ge> closeThresholdUsd cfg)"

definition spec_isAtMax :: "MarketMakerConfig \<Rightarrow> real \<Rightarrow> bool" where
  "spec_isAtMax cfg notionalUsd = (\<bar>notionalUsd\<bar> \<ge> maxPositionUsd cfg)"

definition spec_generateQuotes :: "MarketMakerConfig \<Rightarrow> Market \<Rightarrow> real \<Rightarrow> real \<Rightarrow> Quote" where
  "spec_generateQuotes cfg mkt fairPrice s =
     (let closing = isCloseMode cfg s;
          halfSpread = (if closing then takeProfitBps cfg else spreadBps cfg);
          bidPx = roundDownTo (tickSize mkt) (fairPrice * (1 - halfSpread / 10000));
          askPx = roundUpTo (tickSize mkt) (fairPrice * (1 + halfSpread / 10000));
          atMax = spec_isAtMax cfg s;
          quoteBid = (if closing then s < 0 else \<not> (atMax \<and> s > 0));
          quoteAsk = (if closing then s > 0 else \<not> (atMax \<and> s < 0));
          usd = (if closing then min (orderSizeUsd cfg) \<bar>s\<bar> else orderSizeUsd cfg)
      in \<lparr>bidPrice = (if quoteBid then Some bidPx else None),
          bidSize = (if quoteBid then Some (toBaseUnits mkt usd bidPx) else None),
          bidReduceOnly = ((closing \<and> quoteBid) \<or> (atMax \<and> s > 0)),
          askPrice = (if quoteAsk then Some askPx else None),
          askSize = (if quoteAsk then Some (toBaseUnits mkt usd askPx) else None),
          askReduceOnly = ((closing \<and> quoteAsk) \<or> (atMax \<and> s < 0))\<rparr>)"

definition spec_quoteToOrders :: "MarketMakerConfig \<Rightarrow> Quote \<Rightarrow> OrderRequest list" where
  "spec_quoteToOrders cfg q =
     (case (bidPrice q, bidSize q) of
        (Some px, Some sz) \<Rightarrow>
          [\<lparr>r_symbol = symbol cfg, r_side = Buy, r_price = px, r_size = sz,
            r_reduceOnly = bidReduceOnly q\<rparr>]
      | _ \<Rightarrow> []) @
     (case (askPrice q, askSize q) of
        (Some px, Some sz) \<Rightarrow>
          [\<lparr>r_symbol = symbol cfg, r_side = Sell, r_price = px, r_size = sz,
            r_reduceOnly = askReduceOnly q\<rparr>]
      | _ \<Rightarrow> [])"

text \<open>
  The two collaborators as objects. The staleness test is left to the caller: the
  specification fixes no formula for it.
\<close>

definition spec_Quoter ::
  "MarketMakerConfig \<Rightarrow> Market \<Rightarrow> (real \<Rightarrow> side \<Rightarrow> real \<Rightarrow> exn + bool) \<Rightarrow> Quoter" where
  "spec_Quoter cfg mkt stale =
     \<lparr>generateQuotes = (\<lambda>fairPrice s. Inr (spec_generateQuotes cfg mkt fairPrice s)),
      isOrderStale = stale,
      quoteToOrders = (\<lambda>q. Inr (spec_quoteToOrders cfg q))\<rparr>"

definition spec_PositionManager :: "MarketMakerConfig \<Rightarrow> real \<Rightarrow> PositionManager" where
  "spec_PositionManager cfg notionalUsd =
     \<lparr>isAtMax = Inr (spec_isAtMax cfg notionalUsd), getSignedNotional = Inr notionalUsd\<rparr>"

section \<open>The fair-price estimator\<close>

text \<open>
  Modelled from the spec: the estimator (\<open>fair-price.ts\<close>) is not part of the sources.
  \<open>onSample\<close> follows section 4.1: the first sample initialises the average; every later
  sample moves it by \<open>\<alpha> \<cdot> (p - ema)\<close> with \<open>\<alpha> = 1 - exp (- \<Delta>t / windowMs)\<close>, \<open>\<Delta>t\<close> the time
  since the previous sample. The arithmetic is over the reals.
\<close>

record FairPriceState =
  emaValue :: "real option"
  sampleCount :: nat
  lastSampleTs :: real
  warmupDeadline :: real

definition onSample :: "real \<Rightarrow> real \<Rightarrow> real \<Rightarrow> FairPriceState \<Rightarrow> FairPriceState" where
  "onSample windowMs p t st =
     (case emaValue st of
        None \<Rightarrow> st\<lparr>emaValue := Some p, sampleCount := sampleCount st + 1, lastSampleTs := t\<rparr>
      | Some ema \<Rightarrow>
          (let \<alpha> = 1 - exp (- (t - lastSampleTs st) / windowMs)
           in st\<lparr>emaValue := Some (ema + \<alpha> * (p - ema)),
                 sampleCount := sampleCount st + 1, lastSampleTs := t\<rparr>))"

text \<open>A sample is a pair of timestamp and price; the feed delivers them in order.\<close>

fun onSamples :: "real \<Rightarrow> (real \<times> real) list \<Rightarrow> FairPriceState \<Rightarrow> FairPriceState" where
  "onSamples windowMs [] st = st"
| "onSamples windowMs ((t, p) # rest) st = onSamples windowMs rest (onSample windowMs p t st)"

definition newFairPriceState :: "real \<Rightarrow> FairPriceState" where
  "newFairPriceState deadline =
     \<lparr>emaValue = None, sampleCount = 0, lastSampleTs = 0, warmupDeadline = deadline\<rparr>"

section \<open>Runs of ticks and sample inputs\<close>


text \<open>
  Concrete objects on which the theorems below are instantiated: the documented default
  configuration for BTC, a market with tick 1 and lot 1/1000, a venue with no resting
  orders that accepts every request, a connected feed reporting a fair price of 50000, and
  a quoter that calls an order stale when it is more than 30 basis points from fair.
\<close>

definition btc_config :: MarketMakerConfig where
  "btc_config =
     \<lparr>symbol = ''BTC'', spreadBps = 10, takeProfitBps = 5, orderSizeUsd = 100,
      closeThresholdUsd = 500, maxPositionUsd = 2000, fairPriceWindowMs = 5000,
      updateThrottleMs = 1000, minMarginRatio = 1 / 10\<rparr>"

definition btc_market :: Market where
  "btc_market =
     \<lparr>m_id = ''0xbtc'', m_symbol = ''BTC/USD:USDC'', m_base = ''BTC'',
      tickSize = 1, lotSize = 1 / 1000\<rparr>"

definition stale30 :: "real \<Rightarrow> side \<Rightarrow> real \<Rightarrow> exn + bool" where
  "stale30 px sd fairPrice = Inr (\<bar>px - fairPrice\<bar> * 10000 > 30 * fairPrice)"

definition quiet_venue :: Venue where
  "quiet_venue =
     \<lparr>resting = [], account = \<lparr>equity = 1000, availableMargin = 500\<rparr>, calls = [],
      faults = (\<lambda>n. False), orderIds = (\<lambda>n. ''oid'')\<rparr>"

definition live_feed :: FairPriceCalculator where
  "live_feed = \<lparr>getFairPrice = Inr (Some 50000), feedDisconnect = Inr (), feedConnected = True\<rparr>"

definition resting_bid :: Order where
  "resting_bid =
     \<lparr>o_id = ''oid'', o_symbol = ''BTC'', o_side = Buy, o_price = 49950, o_size = 1 / 500\<rparr>"

text \<open>A market maker in state \<open>running\<close> whose position has the given signed notional.\<close>

definition running_maker :: "real \<Rightarrow> Venue MarketMaker" where
  "running_maker notionalUsd =
     (new_MarketMaker btc_config quiet_venue live_feed
        (spec_Quoter btc_config btc_market stale30)
        (spec_PositionManager btc_config notionalUsd))
       \<lparr>state := Running, market := Some btc_market,
        mainLoopInterval := Some 1, orderSyncInterval := Some 2, marginCheckInterval := Some 3\<rparr>"

definition quiet_aftermath :: Aftermath where
  "quiet_aftermath =
     \<lparr>symbolToChId = [(''BTC/USD:USDC'', ''0xbtc''), (''BTC'', ''0xbtc'')],
      listing = (\<lambda>sy. if sy = ''BTC'' \<or> sy = ''BTC/USD:USDC'' then Some btc_market else None),
      accountNumber = 7,
      openOrders = (\<lambda>chId. []),
      requests = [],
      af_faults = (\<lambda>n. False)\<rparr>"

text \<open>
  Two more venues: one holding a resting bid whose account reports a margin ratio of
  0.08, and one whose account reports 0.12.
\<close>

definition thin_venue :: Venue where
  "thin_venue =
     quiet_venue\<lparr>resting := [resting_bid], account := \<lparr>equity = 1000, availableMargin = 80\<rparr>\<rparr>"

definition recovered_venue :: Venue where
  "recovered_venue = quiet_venue\<lparr>account := \<lparr>equity = 1000, availableMargin = 120\<rparr>\<rparr>"



text \<open>A venue that rejects the second request it receives and accepts all others.\<close>

definition deaf_venue :: Venue where
  "deaf_venue = thin_venue\<lparr>faults := (\<lambda>n. n = 1)\<rparr>"

text \<open>The Aftermath venue with one open order in the BTC channel.\<close>

definition busy_aftermath :: Aftermath where
  "busy_aftermath =
     quiet_aftermath\<lparr>openOrders := (\<lambda>chId. if chId = ''0xbtc'' then [resting_bid] else [])\<rparr>"

text \<open>A venue whose account is under water: negative equity, no available margin.\<close>

definition underwater_venue :: Venue where
  "underwater_venue = thin_venue\<lparr>account := \<lparr>equity = - 100, availableMargin = 0\<rparr>\<rparr>"

text \<open>
  A market maker as constructed (state \<open>stopped\<close>) for the symbol \<open>/USD\<close>, whose base is
  empty.
\<close>

definition slash_maker :: "Venue MarketMaker" where
  "slash_maker =
     new_MarketMaker (btc_config\<lparr>symbol := ''/USD''\<rparr>) quiet_venue live_feed
       (spec_Quoter btc_config btc_market stale30) (spec_PositionManager btc_config 0)"

section \<open>Basic facts about the model\<close>

lemmas io_defs = return_io_def throw_def bind_io_def try_catch_def modify_def
  call_on_def on_exchange_def on_feed_def

lemma mm_cancelAllOrders_eq:
  "mm_cancelAllOrders I m =
     (case cancelAllOrders I (symbol (config m)) (exchange m) of
        (Inl e, x') \<Rightarrow> (Inr (), m\<lparr>exchange := x'\<rparr>)
      | (Inr u, x') \<Rightarrow> (Inr (), m\<lparr>exchange := x', currentOrders := []\<rparr>))"
  by (simp add: mm_cancelAllOrders_def io_defs split: prod.splits sum.splits)

text \<open>What a margin check decides from the stored ratio.\<close>

lemma checkMarginRatio_rejected:
  assumes "getAccount I (exchange m) = (Inl e, x')"
  shows "checkMarginRatio I m = (Inr (), m\<lparr>exchange := x'\<rparr>)"
  using assms by (simp add: checkMarginRatio_def io_defs)

lemma checkMarginRatio_resolved:
  assumes "getAccount I (exchange m) = (Inr acct, x')"
  shows "checkMarginRatio I m =
     (let m1 = m\<lparr>exchange := x'\<rparr>;
          m2 = (if equity acct > 0
                then m1\<lparr>lastMarginRatio := availableMargin acct / equity acct\<rparr> else m1)
      in if lastMarginRatio m2 < minMarginRatio (config m) then
           (if state m = Running then mm_cancelAllOrders I (m2\<lparr>state := Paused\<rparr>)
            else (Inr (), m2))
         else if state m = Paused \<and> lastMarginRatio m2 \<ge> minMarginRatio (config m) * 1.2
         then (Inr (), m2\<lparr>state := Running\<rparr>)
         else (Inr (), m2))"
  using assms
  by (simp add: checkMarginRatio_def io_defs mm_cancelAllOrders_eq Let_def
      split: prod.splits sum.splits)

lemma mm_cancelAllOrders_fields:
  "state (snd (mm_cancelAllOrders I m)) = state m"
  "lastMarginRatio (snd (mm_cancelAllOrders I m)) = lastMarginRatio m"
  "errorCount (snd (mm_cancelAllOrders I m)) = errorCount m"
  "maxErrors (snd (mm_cancelAllOrders I m)) = maxErrors m"
  "fst (mm_cancelAllOrders I m) = Inr ()"
  by (simp_all add: mm_cancelAllOrders_eq split: prod.splits sum.splits)


lemma venue_getAccount:
  "getAccount venue v =
     (if faults v (length (calls v))
      then (Inl (Error ''venue request failed''), v\<lparr>calls := calls v @ [GetAccount]\<rparr>)
      else (Inr (account v), v\<lparr>calls := calls v @ [GetAccount]\<rparr>))"
  by (simp add: venue_def request_def Let_def)

lemma venue_cancelAllOrders:
  "cancelAllOrders venue sy v =
     (if faults v (length (calls v))
      then (Inl (Error ''venue request failed''), v\<lparr>calls := calls v @ [CancelAllOrders sy]\<rparr>)
      else (Inr (), v\<lparr>calls := calls v @ [CancelAllOrders sy],
                       resting := filter (\<lambda>ord. o_symbol ord \<noteq> sy) (resting v)\<rparr>))"
  by (simp add: venue_def venue_cancelAllOrders_def request_def Let_def)

lemma venue_unsubscribeOrderbook:
  "unsubscribeOrderbook venue sy v
     = (Inr (), v\<lparr>calls := calls v @ [UnsubscribeOrderbook sy]\<rparr>)"
  by (simp add: venue_def venue_unsubscribeOrderbook_def request_def io_defs Let_def)

lemma hyperliquid_venue_ops:
  "cancelAllOrders hyperliquid_venue = cancelAllOrders venue"
  "disconnect hyperliquid_venue = disconnect venue"
  "unsubscribeOrderbook hyperliquid_venue sy v
     = (if baseOf sy = [] then (Inl (Error ''Invalid symbol''), v)
        else (Inr (), v\<lparr>calls := calls v @ [UnsubscribeOrderbook (baseOf sy)]\<rparr>))"
  by (simp_all add: hyperliquid_venue_def hl_unsubscribeOrderbook_def request_def io_defs Let_def)

lemma venue_disconnect:
  "disconnect venue v =
     (if faults v (length (calls v))
      then (Inl (Error ''venue request failed''), v\<lparr>calls := calls v @ [Disconnect]\<rparr>)
      else (Inr (), v\<lparr>calls := calls v @ [Disconnect]\<rparr>))"
  by (simp add: venue_def request_def Let_def)

lemma venue_placeOrder:
  "placeOrder venue r v =
     (if faults v (length (calls v))
      then (Inl (Error ''venue request failed''), v\<lparr>calls := calls v @ [PlaceOrder r]\<rparr>)
      else (Inr (orderIds v (Suc (length (calls v)))),
            v\<lparr>calls := calls v @ [PlaceOrder r],
              resting := resting v @
                [\<lparr>o_id = orderIds v (Suc (length (calls v))), o_symbol = r_symbol r,
                  o_side = r_side r, o_price = r_price r, o_size = r_size r\<rparr>]\<rparr>))"
  by (simp add: venue_def venue_placeOrder_def request_def Let_def)

lemma running_maker_fields:
  "state (running_maker n) = Running"
  "config (running_maker n) = btc_config"
  "exchange (running_maker n) = quiet_venue"
  "currentOrders (running_maker n) = []"
  "errorCount (running_maker n) = 0"
  "maxErrors (running_maker n) = 10"
  "lastMarginRatio (running_maker n) = 1"
  "lastUpdateTime (running_maker n) = 0"
  "fairPriceCalc (running_maker n) = live_feed"
  "quoter (running_maker n) = spec_Quoter btc_config btc_market stale30"
  "positionManager (running_maker n) = spec_PositionManager btc_config n"
  by (simp_all add: running_maker_def new_MarketMaker_def)

section \<open>The margin check\<close>

text \<open>
  C10. The margin check divides \<open>availableMargin\<close> by \<open>equity\<close> only when the equity is
  positive. When the account's equity is zero or negative the stored ratio (1.0 in a
  new market maker) is kept as it is, and the decision to pause or to resume is the one
  the stored ratio gives: nothing derived from a non-positive divisor enters it.
\<close>

theorem margin_ratio_guarded_by_positive_equity:
  "lastMarginRatio (new_MarketMaker cfg x fp q pm) = 1
   \<and> (getAccount I (exchange m) = (Inr acct, x') \<and> equity acct > 0 \<longrightarrow>
        lastMarginRatio (snd (checkMarginRatio I m)) = availableMargin acct / equity acct)
   \<and> (getAccount I (exchange m) = (Inr acct, x') \<and> equity acct \<le> 0 \<longrightarrow>
        lastMarginRatio (snd (checkMarginRatio I m)) = lastMarginRatio m
      \<and> state (snd (checkMarginRatio I m)) =
          (if lastMarginRatio m < minMarginRatio (config m)
           then (if state m = Running then Paused else state m)
           else if state m = Paused \<and> lastMarginRatio m \<ge> minMarginRatio (config m) * 1.2
           then Running else state m))"
proof (intro conjI impI)
  show "lastMarginRatio (new_MarketMaker cfg x fp q pm) = 1"
    by (simp add: new_MarketMaker_def)
next
  assume "getAccount I (exchange m) = (Inr acct, x') \<and> equity acct > 0"
  then show "lastMarginRatio (snd (checkMarginRatio I m)) = availableMargin acct / equity acct"
    by (simp add: checkMarginRatio_resolved Let_def mm_cancelAllOrders_fields)
next
  assume a: "getAccount I (exchange m) = (Inr acct, x') \<and> equity acct \<le> 0"
  then show "lastMarginRatio (snd (checkMarginRatio I m)) = lastMarginRatio m"
    by (simp add: checkMarginRatio_resolved Let_def mm_cancelAllOrders_fields)
  from a show "state (snd (checkMarginRatio I m)) =
          (if lastMarginRatio m < minMarginRatio (config m)
           then (if state m = Running then Paused else state m)
           else if state m = Paused \<and> lastMarginRatio m \<ge> minMarginRatio (config m) * 1.2
           then Running else state m)"
    by (simp add: checkMarginRatio_resolved Let_def mm_cancelAllOrders_fields)
qed

theorem margin_ratio_guarded_by_positive_equity_witness:
  "getAccount venue (exchange ((running_maker 0)\<lparr>state := Paused\<rparr>))
     = (Inr \<lparr>equity = 1000, availableMargin = 500\<rparr>, quiet_venue\<lparr>calls := [GetAccount]\<rparr>)
   \<and> equity \<lparr>equity = 1000, availableMargin = 500\<rparr> > 0
   \<and> lastMarginRatio (snd (checkMarginRatio venue ((running_maker 0)\<lparr>state := Paused\<rparr>))) = 1 / 2
   \<and> getAccount venue (exchange ((running_maker 0)
        \<lparr>exchange := quiet_venue\<lparr>account := \<lparr>equity = 0, availableMargin = - 5\<rparr>\<rparr>, state := Paused\<rparr>))
     = (Inr \<lparr>equity = 0, availableMargin = - 5\<rparr>,
        quiet_venue\<lparr>account := \<lparr>equity = 0, availableMargin = - 5\<rparr>, calls := [GetAccount]\<rparr>)
   \<and> equity \<lparr>equity = 0, availableMargin = - 5\<rparr> \<le> 0
   \<and> lastMarginRatio (snd (checkMarginRatio venue ((running_maker 0)
        \<lparr>exchange := quiet_venue\<lparr>account := \<lparr>equity = 0, availableMargin = - 5\<rparr>\<rparr>, state := Paused\<rparr>))) = 1
   \<and> state (snd (checkMarginRatio venue ((running_maker 0)
        \<lparr>exchange := quiet_venue\<lparr>account := \<lparr>equity = 0, availableMargin = - 5\<rparr>\<rparr>, state := Paused\<rparr>))) = Running"
proof -
  let ?m1 = "(running_maker 0)\<lparr>state := Paused\<rparr>"
  let ?a1 = "\<lparr>equity = 1000, availableMargin = 500\<rparr>"
  let ?m2 = "(running_maker 0)
        \<lparr>exchange := quiet_venue\<lparr>account := \<lparr>equity = 0, availableMargin = - 5\<rparr>\<rparr>, state := Paused\<rparr>"
  let ?a2 = "\<lparr>equity = 0, availableMargin = - 5\<rparr>"
  have g1: "getAccount venue (exchange ?m1) = (Inr ?a1, quiet_venue\<lparr>calls := [GetAccount]\<rparr>)"
    by (simp add: venue_getAccount running_maker_def new_MarketMaker_def quiet_venue_def)
  have g2: "getAccount venue (exchange ?m2)
      = (Inr ?a2, quiet_venue\<lparr>account := ?a2, calls := [GetAccount]\<rparr>)"
    by (simp add: venue_getAccount running_maker_def new_MarketMaker_def quiet_venue_def)
  have s2: "lastMarginRatio ?m2 = 1" "state ?m2 = Paused" "minMarginRatio (config ?m2) = 1 / 10"
    by (simp_all add: running_maker_def new_MarketMaker_def btc_config_def)
  from margin_ratio_guarded_by_positive_equity
         [of btc_config quiet_venue live_feed "quoter ?m1" "positionManager ?m1"
            venue ?m1 ?a1 "quiet_venue\<lparr>calls := [GetAccount]\<rparr>"] g1
  have c1: "lastMarginRatio (snd (checkMarginRatio venue ?m1)) = 1 / 2" by simp
  from margin_ratio_guarded_by_positive_equity
         [of btc_config quiet_venue live_feed "quoter ?m1" "positionManager ?m1"
            venue ?m2 ?a2 "quiet_venue\<lparr>account := ?a2, calls := [GetAccount]\<rparr>"] g2
  have c2: "lastMarginRatio (snd (checkMarginRatio venue ?m2)) = lastMarginRatio ?m2
      \<and> state (snd (checkMarginRatio venue ?m2)) =
          (if lastMarginRatio ?m2 < minMarginRatio (config ?m2)
           then (if state ?m2 = Running then Paused else state ?m2)
           else if state ?m2 = Paused \<and> lastMarginRatio ?m2 \<ge> minMarginRatio (config ?m2) * 1.2
           then Running else state ?m2)" by simp
  from c2 s2 have c2': "lastMarginRatio (snd (checkMarginRatio venue ?m2)) = 1"
      "state (snd (checkMarginRatio venue ?m2)) = Running" by simp_all
  show ?thesis using g1 g2 c1 c2' by simp
qed

text \<open>
  C2 (as the code has it). The ratio a margin check acts on is the stored one, which the
  check recomputes as \<open>availableMargin / equity\<close> only when the equity is positive. While
  the state is \<open>running\<close>, a check that observes positive equity and a ratio below
  \<open>minMarginRatio\<close> sets the state to \<open>paused\<close> and asks the venue to cancel all orders of
  the symbol (the only requests of the check are the account query and that
  cancellation); when the venue accepts the cancellation, no tracked and no resting
  order of the symbol is left. From \<open>paused\<close> a check leads to \<open>running\<close> only if the
  stored ratio is at least \<open>minMarginRatio * 1.2\<close>, and it does so whenever the ratio
  observed under positive equity reaches that bound (for a non-negative \<open>minMarginRatio\<close>).
\<close>

theorem margin_pause_and_resume:
  "(state m = Running \<and> \<not> faults (exchange m) (length (calls (exchange m)))
      \<and> equity (account (exchange m)) > 0
      \<and> availableMargin (account (exchange m)) / equity (account (exchange m))
           < minMarginRatio (config m) \<longrightarrow>
      state (snd (checkMarginRatio venue m)) = Paused
    \<and> calls (exchange (snd (checkMarginRatio venue m)))
        = calls (exchange m) @ [GetAccount, CancelAllOrders (symbol (config m))]
    \<and> (\<not> faults (exchange m) (Suc (length (calls (exchange m)))) \<longrightarrow>
         currentOrders (snd (checkMarginRatio venue m)) = []
       \<and> filter (\<lambda>ord. o_symbol ord = symbol (config m))
            (resting (exchange (snd (checkMarginRatio venue m)))) = []))
   \<and> (state m = Paused \<and> state (snd (checkMarginRatio venue m)) = Running \<longrightarrow>
        lastMarginRatio (snd (checkMarginRatio venue m)) \<ge> minMarginRatio (config m) * 1.2)
   \<and> (state m = Paused \<and> \<not> faults (exchange m) (length (calls (exchange m)))
      \<and> equity (account (exchange m)) > 0 \<and> 0 \<le> minMarginRatio (config m)
      \<and> availableMargin (account (exchange m)) / equity (account (exchange m))
           \<ge> minMarginRatio (config m) * 1.2 \<longrightarrow>
      state (snd (checkMarginRatio venue m)) = Running)"
proof (intro conjI impI)
  assume a: "state m = Running \<and> \<not> faults (exchange m) (length (calls (exchange m)))
      \<and> equity (account (exchange m)) > 0
      \<and> availableMargin (account (exchange m)) / equity (account (exchange m))
           < minMarginRatio (config m)"
  then show "state (snd (checkMarginRatio venue m)) = Paused"
    by (simp add: checkMarginRatio_resolved venue_getAccount Let_def mm_cancelAllOrders_fields)
  from a show "calls (exchange (snd (checkMarginRatio venue m)))
        = calls (exchange m) @ [GetAccount, CancelAllOrders (symbol (config m))]"
    by (simp add: checkMarginRatio_resolved venue_getAccount Let_def mm_cancelAllOrders_eq
          venue_cancelAllOrders)
  assume b: "\<not> faults (exchange m) (Suc (length (calls (exchange m))))"
  from a b show "currentOrders (snd (checkMarginRatio venue m)) = []"
    by (simp add: checkMarginRatio_resolved venue_getAccount Let_def mm_cancelAllOrders_eq
          venue_cancelAllOrders)
  from a b show "filter (\<lambda>ord. o_symbol ord = symbol (config m))
            (resting (exchange (snd (checkMarginRatio venue m)))) = []"
    by (simp add: checkMarginRatio_resolved venue_getAccount Let_def mm_cancelAllOrders_eq
          venue_cancelAllOrders)
next
  assume a: "state m = Paused \<and> state (snd (checkMarginRatio venue m)) = Running"
  show "lastMarginRatio (snd (checkMarginRatio venue m)) \<ge> minMarginRatio (config m) * 1.2"
  proof (cases "faults (exchange m) (length (calls (exchange m)))")
    case True
    with a show ?thesis
      by (auto simp add: checkMarginRatio_rejected venue_getAccount)
  next
    case False
    with a show ?thesis
      by (simp add: checkMarginRatio_resolved venue_getAccount Let_def split: if_splits)
  qed
next
  assume a: "state m = Paused \<and> \<not> faults (exchange m) (length (calls (exchange m)))
      \<and> equity (account (exchange m)) > 0 \<and> 0 \<le> minMarginRatio (config m)
      \<and> availableMargin (account (exchange m)) / equity (account (exchange m))
           \<ge> minMarginRatio (config m) * 1.2"
  then have "minMarginRatio (config m)
      \<le> availableMargin (account (exchange m)) / equity (account (exchange m))"
    by linarith
  with a show "state (snd (checkMarginRatio venue m)) = Running"
    by (simp add: checkMarginRatio_resolved venue_getAccount Let_def)
qed

theorem margin_pause_and_resume_witness:
  "state ((running_maker 0)\<lparr>exchange := thin_venue, currentOrders := [resting_bid]\<rparr>) = Running
   \<and> \<not> faults thin_venue (length (calls thin_venue))
   \<and> equity (account thin_venue) > 0
   \<and> availableMargin (account thin_venue) / equity (account thin_venue) < minMarginRatio btc_config
   \<and> \<not> faults thin_venue (Suc (length (calls thin_venue)))
   \<and> state (snd (checkMarginRatio venue
         ((running_maker 0)\<lparr>exchange := thin_venue, currentOrders := [resting_bid]\<rparr>))) = Paused
   \<and> calls (exchange (snd (checkMarginRatio venue
         ((running_maker 0)\<lparr>exchange := thin_venue, currentOrders := [resting_bid]\<rparr>))))
       = [GetAccount, CancelAllOrders ''BTC'']
   \<and> currentOrders (snd (checkMarginRatio venue
         ((running_maker 0)\<lparr>exchange := thin_venue, currentOrders := [resting_bid]\<rparr>))) = []
   \<and> state ((running_maker 0)\<lparr>exchange := recovered_venue, state := Paused\<rparr>) = Paused
   \<and> \<not> faults recovered_venue (length (calls recovered_venue))
   \<and> equity (account recovered_venue) > 0
   \<and> 0 \<le> minMarginRatio btc_config
   \<and> availableMargin (account recovered_venue) / equity (account recovered_venue)
        \<ge> minMarginRatio btc_config * 1.2
   \<and> state (snd (checkMarginRatio venue
         ((running_maker 0)\<lparr>exchange := recovered_venue, state := Paused\<rparr>))) = Running
   \<and> lastMarginRatio (snd (checkMarginRatio venue
         ((running_maker 0)\<lparr>exchange := recovered_venue, state := Paused\<rparr>)))
        \<ge> minMarginRatio btc_config * 1.2"
  using margin_pause_and_resume
          [of "(running_maker 0)\<lparr>exchange := thin_venue, currentOrders := [resting_bid]\<rparr>"]
        margin_pause_and_resume
          [of "(running_maker 0)\<lparr>exchange := recovered_venue, state := Paused\<rparr>"]
  by (simp add: running_maker_fields thin_venue_def recovered_venue_def quiet_venue_def
        btc_config_def)

text \<open>
  The claim as stated fails when the equity is not positive: for an account with equity
  -100 and no available margin the quotient is 0, below \<open>minMarginRatio = 0.1\<close>, yet the
  check of a running market maker keeps the stored ratio of 1, stays \<open>running\<close> and sends
  no cancellation.
\<close>

theorem underwater_account_does_not_pause:
  "state ((running_maker 0)\<lparr>exchange := underwater_venue\<rparr>) = Running
   \<and> availableMargin (account underwater_venue) / equity (account underwater_venue)
       < minMarginRatio (config ((running_maker 0)\<lparr>exchange := underwater_venue\<rparr>))
   \<and> fst (getAccount venue underwater_venue) = Inr (account underwater_venue)
   \<and> state (snd (checkMarginRatio venue ((running_maker 0)\<lparr>exchange := underwater_venue\<rparr>)))
       = Running
   \<and> calls (exchange (snd (checkMarginRatio venue
        ((running_maker 0)\<lparr>exchange := underwater_venue\<rparr>)))) = [GetAccount]"
  by (simp add: checkMarginRatio_resolved venue_getAccount running_maker_fields
        underwater_venue_def thin_venue_def quiet_venue_def btc_config_def)

section \<open>The error counter\<close>

text \<open>
  C9. When the error counter reaches \<open>maxErrors\<close>, \<open>handleError\<close> writes the counter and
  the state \<open>paused\<close> and nothing else: every other field, the tracked orders and the
  exchange object are as before, so no request reaches the venue and its resting orders
  stay. The pause of the margin check, in contrast, sends a cancellation of all orders.
\<close>

theorem error_breaker_changes_only_state_and_counter:
  "(errorCount m + 1 \<ge> maxErrors m \<longrightarrow>
       handleError m = m\<lparr>errorCount := errorCount m + 1, state := Paused\<rparr>
     \<and> exchange (handleError m) = exchange m
     \<and> currentOrders (handleError m) = currentOrders m)
   \<and> (errorCount mv + 1 \<ge> maxErrors mv \<longrightarrow>
       calls (exchange (handleError mv)) = calls (exchange mv)
     \<and> resting (exchange (handleError mv)) = resting (exchange mv))
   \<and> (state mv = Running \<and> \<not> faults (exchange mv) (length (calls (exchange mv)))
       \<and> equity (account (exchange mv)) > 0
       \<and> availableMargin (account (exchange mv)) / equity (account (exchange mv))
           < minMarginRatio (config mv) \<longrightarrow>
       state (snd (checkMarginRatio venue mv)) = Paused
     \<and> calls (exchange (snd (checkMarginRatio venue mv)))
         = calls (exchange mv) @ [GetAccount, CancelAllOrders (symbol (config mv))])"
  by (auto simp add: handleError_def Let_def checkMarginRatio_resolved venue_getAccount
        mm_cancelAllOrders_eq venue_cancelAllOrders)

theorem error_breaker_changes_only_state_and_counter_witness:
  "errorCount ((running_maker 0)\<lparr>errorCount := 9\<rparr>) + 1
     \<ge> maxErrors ((running_maker 0)\<lparr>errorCount := 9\<rparr>)
   \<and> handleError ((running_maker 0)\<lparr>errorCount := 9\<rparr>)
       = (running_maker 0)\<lparr>errorCount := 10, state := Paused\<rparr>
   \<and> errorCount ((running_maker 0)\<lparr>exchange := thin_venue, errorCount := 9\<rparr>) + 1
     \<ge> maxErrors ((running_maker 0)\<lparr>exchange := thin_venue, errorCount := 9\<rparr>)
   \<and> resting (exchange (handleError ((running_maker 0)\<lparr>exchange := thin_venue, errorCount := 9\<rparr>)))
       = [resting_bid]
   \<and> state ((running_maker 0)\<lparr>exchange := thin_venue\<rparr>) = Running
   \<and> \<not> faults thin_venue (length (calls thin_venue))
   \<and> equity (account thin_venue) > 0
   \<and> availableMargin (account thin_venue) / equity (account thin_venue) < minMarginRatio btc_config
   \<and> calls (exchange (snd (checkMarginRatio venue ((running_maker 0)\<lparr>exchange := thin_venue\<rparr>))))
       = [GetAccount, CancelAllOrders ''BTC'']"
  using error_breaker_changes_only_state_and_counter
          [of "(running_maker 0)\<lparr>errorCount := 9\<rparr>"
              "(running_maker 0)\<lparr>exchange := thin_venue, errorCount := 9\<rparr>"]
        error_breaker_changes_only_state_and_counter
          [of "(running_maker 0)\<lparr>errorCount := 9\<rparr>"
              "(running_maker 0)\<lparr>exchange := thin_venue\<rparr>"]
  by (simp add: running_maker_fields thin_venue_def quiet_venue_def btc_config_def)

section \<open>The quoting tick\<close>

lemma placeOrders_frame:
  "\<exists>x'. placeOrders I rs m = (Inr (), m\<lparr>exchange := x'\<rparr>)"
proof (induction rs arbitrary: m)
  case Nil
  have "placeOrders I [] m = (Inr (), m\<lparr>exchange := exchange m\<rparr>)"
    by (simp add: io_defs)
  then show ?case by blast
next
  case (Cons r rs)
  obtain res x1 where p: "placeOrder I r (exchange m) = (res, x1)"
    by (cases "placeOrder I r (exchange m)")
  from Cons.IH [of "m\<lparr>exchange := x1\<rparr>"] obtain x2
    where "placeOrders I rs (m\<lparr>exchange := x1\<rparr>) = (Inr (), m\<lparr>exchange := x2\<rparr>)"
    by auto
  with p have "placeOrders I (r # rs) m = (Inr (), m\<lparr>exchange := x2\<rparr>)"
    by (cases res) (simp_all add: io_defs)
  then show ?case by blast
qed

lemma placeOrders_never_rejects [simp]:
  "placeOrders I rs m \<noteq> (Inl e, m')"
  using placeOrders_frame [of I rs m] by auto

lemma placeOrders_fields:
  "errorCount (snd (placeOrders I rs m)) = errorCount m"
  "maxErrors (snd (placeOrders I rs m)) = maxErrors m"
  "state (snd (placeOrders I rs m)) = state m"
  "currentOrders (snd (placeOrders I rs m)) = currentOrders m"
  "fst (placeOrders I rs m) = Inr ()"
  using placeOrders_frame [of I rs m] by auto

lemma placeOrders_venue_calls:
  "calls (exchange (snd (placeOrders venue rs m))) = calls (exchange m) @ map PlaceOrder rs"
proof (induction rs arbitrary: m)
  case Nil
  show ?case by (simp add: io_defs)
next
  case (Cons r rs)
  show ?case
    using Cons.IH [of "m\<lparr>exchange := snd (placeOrder venue r (exchange m))\<rparr>"]
    by (simp add: io_defs venue_placeOrder split: prod.splits sum.splits if_splits)
qed

lemma shouldUpdateOrders_lastUpdateTime [simp]:
  "shouldUpdateOrders (m\<lparr>lastUpdateTime := t\<rparr>) q = shouldUpdateOrders m q"
  by (simp add: shouldUpdateOrders_def split: sum.splits option.splits)

text \<open>The part of a tick after the decision to update: cancel, place, reset the counter.\<close>

lemma runMainLoop_gated:
  assumes "state m = Running"
    and "\<not> now - lastUpdateTime m < updateThrottleMs (config m)"
    and "getFairPrice (fairPriceCalc m) = Inr (Some fp)" and "fp \<noteq> 0"
    and "isAtMax (positionManager m) = Inr False"
    and "getSignedNotional (positionManager m) = Inr sn"
    and "generateQuotes (quoter m) fp sn = Inr q"
    and "shouldUpdateOrders m q = Inr needs"
    and "quoteToOrders (quoter m) q = Inr rs"
  shows "runMainLoop I now m =
     (if needs
      then (case placeOrders I rs (snd (mm_cancelAllOrders I (m\<lparr>lastUpdateTime := now\<rparr>))) of
              (r, m') \<Rightarrow> (Inr (), m'\<lparr>errorCount := 0\<rparr>))
      else (Inr (), m\<lparr>lastUpdateTime := now\<rparr>))"
proof -
  obtain x' where "placeOrders I rs (snd (mm_cancelAllOrders I (m\<lparr>lastUpdateTime := now\<rparr>)))
      = (Inr (), (snd (mm_cancelAllOrders I (m\<lparr>lastUpdateTime := now\<rparr>)))\<lparr>exchange := x'\<rparr>)"
    using placeOrders_frame [of I rs "snd (mm_cancelAllOrders I (m\<lparr>lastUpdateTime := now\<rparr>))"]
    by blast
  with assms show ?thesis
    by (simp add: runMainLoop_def io_defs mm_cancelAllOrders_eq split: prod.splits sum.splits)
qed














lemma anyStale_resolves:
  "\<forall>ord\<in>set os. \<exists>b. isOrderStale q (o_price ord) (o_side ord) fp = Inr b \<Longrightarrow>
   anyStale q fp os
     = Inr (\<exists>ord\<in>set os. isOrderStale q (o_price ord) (o_side ord) fp = Inr True)"
  by (induction os) auto

lemma runMainLoop_at_max:
  assumes "isAtMax (positionManager m) = Inr True"
  shows "exchange (snd (runMainLoop I now m)) = exchange m
       \<and> currentOrders (snd (runMainLoop I now m)) = currentOrders m
       \<and> errorCount (snd (runMainLoop I now m)) = errorCount m
       \<and> state (snd (runMainLoop I now m)) = state m"
  using assms
  by (auto simp add: runMainLoop_def io_defs split: sum.splits option.splits)

lemma shouldUpdateOrders_resolves:
  assumes "getFairPrice (fairPriceCalc m) = Inr (Some fp)" and "fp \<noteq> 0"
    and "\<forall>ord\<in>set (currentOrders m).
           \<exists>b. isOrderStale (quoter m) (o_price ord) (o_side ord) fp = Inr b"
  shows "shouldUpdateOrders m q
     = Inr (currentOrders m = []
            \<or> (\<exists>ord\<in>set (currentOrders m).
                  isOrderStale (quoter m) (o_price ord) (o_side ord) fp = Inr True))"
  using assms by (simp add: shouldUpdateOrders_def anyStale_resolves)

lemma runMainLoop_no_update:
  assumes "currentOrders m \<noteq> []"
    and "\<forall>fp. getFairPrice (fairPriceCalc m) = Inr (Some fp) \<longrightarrow>
           (\<forall>ord\<in>set (currentOrders m).
              isOrderStale (quoter m) (o_price ord) (o_side ord) fp = Inr False)"
  shows "exchange (snd (runMainLoop I now m)) = exchange m"
proof -
  have su: "\<And>fp q. getFairPrice (fairPriceCalc m) = Inr (Some fp) \<Longrightarrow> fp \<noteq> 0 \<Longrightarrow>
              shouldUpdateOrders m q = Inr False"
  proof -
    fix fp q
    assume f: "getFairPrice (fairPriceCalc m) = Inr (Some fp)" and nz: "fp \<noteq> 0"
    with assms(2) have ns: "\<forall>ord\<in>set (currentOrders m).
              isOrderStale (quoter m) (o_price ord) (o_side ord) fp = Inr False" by blast
    then have "\<forall>ord\<in>set (currentOrders m).
           \<exists>b. isOrderStale (quoter m) (o_price ord) (o_side ord) fp = Inr b" by blast
    from shouldUpdateOrders_resolves [OF f nz this, of q] assms(1) ns
    show "shouldUpdateOrders m q = Inr False" by auto
  qed
  show ?thesis
    by (auto simp add: runMainLoop_def io_defs su split: sum.splits option.splits)
qed

text \<open>
  C1 (as the code has it). When the position's absolute notional is at or above
  \<open>maxPositionUsd\<close>, long or short, a quoting tick is skipped as a whole: it sends
  nothing to the exchange, so it places no order on either side and cancels none, and
  it leaves the tracked orders and the state as they are.
\<close>

theorem at_max_tick_places_nothing:
  "positionManager m = spec_PositionManager (config m) notionalUsd
   \<and> \<bar>notionalUsd\<bar> \<ge> maxPositionUsd (config m) \<longrightarrow>
     exchange (snd (runMainLoop I now m)) = exchange m
   \<and> currentOrders (snd (runMainLoop I now m)) = currentOrders m
   \<and> state (snd (runMainLoop I now m)) = state m"
proof
  assume a: "positionManager m = spec_PositionManager (config m) notionalUsd
   \<and> \<bar>notionalUsd\<bar> \<ge> maxPositionUsd (config m)"
  then have "isAtMax (positionManager m) = Inr True"
    by (simp add: spec_PositionManager_def spec_isAtMax_def)
  from runMainLoop_at_max [OF this]
  show "exchange (snd (runMainLoop I now m)) = exchange m
   \<and> currentOrders (snd (runMainLoop I now m)) = currentOrders m
   \<and> state (snd (runMainLoop I now m)) = state m" by simp
qed

theorem at_max_tick_places_nothing_witness:
  "positionManager (running_maker 2100) = spec_PositionManager (config (running_maker 2100)) 2100
   \<and> \<bar>2100\<bar> \<ge> maxPositionUsd (config (running_maker 2100))
   \<and> exchange (snd (runMainLoop venue 5000 (running_maker 2100))) = quiet_venue
   \<and> currentOrders (snd (runMainLoop venue 5000 (running_maker 2100))) = []
   \<and> state (snd (runMainLoop venue 5000 (running_maker 2100))) = Running"
  using at_max_tick_places_nothing [of "running_maker 2100" 2100 venue 5000]
  by (simp add: running_maker_fields btc_config_def)

text \<open>
  The claim as stated fails: with \<open>maxPositionUsd = 2000\<close> and a long position of notional
  2100, a tick in state \<open>running\<close> with a fair price and past its throttle returns without
  any request to the exchange. No ask is placed.
\<close>

theorem at_max_ask_not_quoted:
  "state (running_maker 2100) = Running
   \<and> getSignedNotional (positionManager (running_maker 2100)) = Inr 2100
   \<and> maxPositionUsd (config (running_maker 2100)) = 2000
   \<and> \<not> 5000 - lastUpdateTime (running_maker 2100) < updateThrottleMs (config (running_maker 2100))
   \<and> getFairPrice (fairPriceCalc (running_maker 2100)) = Inr (Some 50000)
   \<and> fst (runMainLoop venue 5000 (running_maker 2100)) = Inr ()
   \<and> calls (exchange (snd (runMainLoop venue 5000 (running_maker 2100)))) = []
   \<and> \<not> (\<exists>r. PlaceOrder r \<in> set (calls (exchange (snd (runMainLoop venue 5000 (running_maker 2100)))))
            \<and> r_side r = Sell)"
proof -
  have r: "runMainLoop venue 5000 (running_maker 2100)
             = (Inr (), (running_maker 2100)\<lparr>lastUpdateTime := 5000\<rparr>)"
    by (simp add: runMainLoop_def io_defs running_maker_fields btc_config_def live_feed_def
          spec_PositionManager_def spec_isAtMax_def)
  show ?thesis
    by (simp add: r running_maker_fields btc_config_def live_feed_def spec_PositionManager_def
          quiet_venue_def)
qed

text \<open>
  C4 (as the code has it). On a tick in state \<open>running\<close> that is past the throttle, has a
  non-zero fair price, is not at the maximum position and whose collaborators return
  normally, the requests sent are a cancellation of all orders of the symbol followed by
  one placement per new order exactly when the tracked order list is empty or some
  tracked order is stale at the current fair price, and none otherwise. On every tick,
  when a tracked order exists and none is stale, the exchange is left untouched.
\<close>

theorem replace_iff_empty_or_stale:
  "(state m = Running \<and> \<not> now - lastUpdateTime m < updateThrottleMs (config m)
      \<and> getFairPrice (fairPriceCalc m) = Inr (Some fp) \<and> fp \<noteq> 0
      \<and> isAtMax (positionManager m) = Inr False
      \<and> getSignedNotional (positionManager m) = Inr sn
      \<and> generateQuotes (quoter m) fp sn = Inr q
      \<and> quoteToOrders (quoter m) q = Inr rs
      \<and> (\<forall>ord\<in>set (currentOrders m).
            \<exists>b. isOrderStale (quoter m) (o_price ord) (o_side ord) fp = Inr b) \<longrightarrow>
      calls (exchange (snd (runMainLoop venue now m)))
        = calls (exchange m) @
          (if currentOrders m = []
              \<or> (\<exists>ord\<in>set (currentOrders m).
                    isOrderStale (quoter m) (o_price ord) (o_side ord) fp = Inr True)
           then CancelAllOrders (symbol (config m)) # map PlaceOrder rs
           else []))
   \<and> (currentOrders m \<noteq> []
      \<and> (\<forall>fp'. getFairPrice (fairPriceCalc m) = Inr (Some fp') \<longrightarrow>
            (\<forall>ord\<in>set (currentOrders m).
               isOrderStale (quoter m) (o_price ord) (o_side ord) fp' = Inr False)) \<longrightarrow>
      exchange (snd (runMainLoop venue now m)) = exchange m)"
proof (intro conjI impI)
  assume g: "state m = Running \<and> \<not> now - lastUpdateTime m < updateThrottleMs (config m)
      \<and> getFairPrice (fairPriceCalc m) = Inr (Some fp) \<and> fp \<noteq> 0
      \<and> isAtMax (positionManager m) = Inr False
      \<and> getSignedNotional (positionManager m) = Inr sn
      \<and> generateQuotes (quoter m) fp sn = Inr q
      \<and> quoteToOrders (quoter m) q = Inr rs
      \<and> (\<forall>ord\<in>set (currentOrders m).
            \<exists>b. isOrderStale (quoter m) (o_price ord) (o_side ord) fp = Inr b)"
  let ?needs = "currentOrders m = []
              \<or> (\<exists>ord\<in>set (currentOrders m).
                    isOrderStale (quoter m) (o_price ord) (o_side ord) fp = Inr True)"
  from g have su: "shouldUpdateOrders m q = Inr ?needs"
    using shouldUpdateOrders_resolves [of m fp q] by blast
  from g su have r: "runMainLoop venue now m =
     (if ?needs
      then (case placeOrders venue rs (snd (mm_cancelAllOrders venue (m\<lparr>lastUpdateTime := now\<rparr>))) of
              (r, m') \<Rightarrow> (Inr (), m'\<lparr>errorCount := 0\<rparr>))
      else (Inr (), m\<lparr>lastUpdateTime := now\<rparr>))"
    using runMainLoop_gated [of m now fp sn q ?needs rs venue] by blast
  have c: "calls (exchange (snd (mm_cancelAllOrders venue (m\<lparr>lastUpdateTime := now\<rparr>))))
             = calls (exchange m) @ [CancelAllOrders (symbol (config m))]"
    by (simp add: mm_cancelAllOrders_eq venue_cancelAllOrders)
  show "calls (exchange (snd (runMainLoop venue now m)))
        = calls (exchange m) @
          (if ?needs then CancelAllOrders (symbol (config m)) # map PlaceOrder rs else [])"
  proof (cases ?needs)
    case True
    with r have "snd (runMainLoop venue now m)
        = (snd (placeOrders venue rs (snd (mm_cancelAllOrders venue (m\<lparr>lastUpdateTime := now\<rparr>)))))
            \<lparr>errorCount := 0\<rparr>"
      by (simp split: prod.splits)
    with True show ?thesis
      by (simp add: placeOrders_venue_calls c)
  next
    case False
    with r show ?thesis by simp
  qed
next
  assume "currentOrders m \<noteq> []
      \<and> (\<forall>fp'. getFairPrice (fairPriceCalc m) = Inr (Some fp') \<longrightarrow>
            (\<forall>ord\<in>set (currentOrders m).
               isOrderStale (quoter m) (o_price ord) (o_side ord) fp' = Inr False))"
  then show "exchange (snd (runMainLoop venue now m)) = exchange m"
    using runMainLoop_no_update [of m venue now] by blast
qed

theorem replace_iff_empty_or_stale_witness:
  "state (running_maker 0) = Running
   \<and> \<not> 5000 - lastUpdateTime (running_maker 0) < updateThrottleMs (config (running_maker 0))
   \<and> getFairPrice (fairPriceCalc (running_maker 0)) = Inr (Some 50000)
   \<and> isAtMax (positionManager (running_maker 0)) = Inr False
   \<and> currentOrders (running_maker 0) = []
   \<and> calls (exchange (snd (runMainLoop venue 5000 (running_maker 0))))
       = CancelAllOrders ''BTC'' #
         map PlaceOrder (spec_quoteToOrders btc_config
                           (spec_generateQuotes btc_config btc_market 50000 0))
   \<and> currentOrders ((running_maker 0)\<lparr>currentOrders := [resting_bid]\<rparr>) \<noteq> []
   \<and> isOrderStale (quoter (running_maker 0)) (o_price resting_bid) (o_side resting_bid) 50000
       = Inr False
   \<and> calls (exchange (snd (runMainLoop venue 5000
        ((running_maker 0)\<lparr>currentOrders := [resting_bid]\<rparr>)))) = []
   \<and> exchange (snd (runMainLoop venue 5000
        ((running_maker 0)\<lparr>currentOrders := [resting_bid]\<rparr>))) = quiet_venue"
proof -
  let ?m = "running_maker 0"
  let ?m1 = "(running_maker 0)\<lparr>currentOrders := [resting_bid]\<rparr>"
  let ?q = "spec_generateQuotes btc_config btc_market 50000 0"
  let ?rs = "spec_quoteToOrders btc_config ?q"
  have st: "isOrderStale (quoter ?m) (o_price resting_bid) (o_side resting_bid) 50000 = Inr False"
    by (simp add: running_maker_fields spec_Quoter_def stale30_def resting_bid_def)
  have basics: "state ?m = Running"
      "\<not> 5000 - lastUpdateTime ?m < updateThrottleMs (config ?m)"
      "getFairPrice (fairPriceCalc ?m) = Inr (Some 50000)"
      "isAtMax (positionManager ?m) = Inr False"
      "getSignedNotional (positionManager ?m) = Inr 0"
      "generateQuotes (quoter ?m) 50000 0 = Inr ?q"
      "quoteToOrders (quoter ?m) ?q = Inr ?rs"
      "symbol (config ?m) = ''BTC''"
    by (simp_all add: running_maker_fields btc_config_def live_feed_def spec_Quoter_def
          spec_PositionManager_def spec_isAtMax_def)
  from replace_iff_empty_or_stale [of ?m 5000 50000 0 ?q ?rs] basics
  have a: "calls (exchange (snd (runMainLoop venue 5000 ?m))) = CancelAllOrders ''BTC'' # map PlaceOrder ?rs"
    by (simp add: running_maker_fields quiet_venue_def)
  from replace_iff_empty_or_stale [of ?m1 5000 50000 0 ?q ?rs] basics st
  have b: "calls (exchange (snd (runMainLoop venue 5000 ?m1))) = []"
          "exchange (snd (runMainLoop venue 5000 ?m1)) = quiet_venue"
    by (simp_all add: running_maker_fields quiet_venue_def)
  show ?thesis using basics st a b by (simp add: running_maker_fields)
qed

text \<open>
  The claim as stated fails: a tick in state \<open>running\<close> with an empty tracked order list
  that arrives 500 ms after the last update, inside the throttle period of 1000 ms,
  sends nothing.
\<close>

theorem throttled_tick_leaves_empty_book:
  "state ((running_maker 0)\<lparr>lastUpdateTime := 5000\<rparr>) = Running
   \<and> currentOrders ((running_maker 0)\<lparr>lastUpdateTime := 5000\<rparr>) = []
   \<and> fst (runMainLoop venue 5500 ((running_maker 0)\<lparr>lastUpdateTime := 5000\<rparr>)) = Inr ()
   \<and> calls (exchange (snd (runMainLoop venue 5500 ((running_maker 0)\<lparr>lastUpdateTime := 5000\<rparr>))))
       = []"
  by (simp add: runMainLoop_def running_maker_fields btc_config_def quiet_venue_def)

section \<open>Shutdown\<close>

lemma clearIntervals_eq:
  "clearIntervals m
     = m\<lparr>mainLoopInterval := None, orderSyncInterval := None, marginCheckInterval := None\<rparr>"
  by (cases m) (simp add: clearIntervals_def Let_def)

text \<open>The three guarded blocks of \<open>stop\<close>, one after the other, on any exchange.\<close>

lemma stop_unfold:
  "stop I m =
     (case cancelAllOrders I (symbol (config m)) (exchange m) of
        (r1, x1) \<Rightarrow>
          (case unsubscribeOrderbook I (symbol (config m)) x1 of
             (r2, x2) \<Rightarrow>
               (Inr (),
                m\<lparr>mainLoopInterval := None, orderSyncInterval := None,
                   marginCheckInterval := None,
                   exchange := (case r2 of Inl e \<Rightarrow> x2 | Inr u \<Rightarrow> snd (disconnect I x2)),
                   currentOrders := (case r1 of Inl e \<Rightarrow> currentOrders m | Inr u \<Rightarrow> []),
                   fairPriceCalc :=
                     (case feedDisconnect (fairPriceCalc m) of
                        Inl e \<Rightarrow> fairPriceCalc m
                      | Inr u \<Rightarrow> (fairPriceCalc m)\<lparr>feedConnected := False\<rparr>),
                   state := Stopped\<rparr>)))"
  by (simp add: stop_def io_defs mm_cancelAllOrders_eq clearIntervals_eq fp_disconnect_def
      split: prod.splits sum.splits)

lemma stop_resolves: "fst (stop I m) = Inr ()"
  by (simp add: stop_unfold split: prod.splits)

lemma stop_fields:
  "state (snd (stop I m)) = Stopped"
  "mainLoopInterval (snd (stop I m)) = None"
  "orderSyncInterval (snd (stop I m)) = None"
  "marginCheckInterval (snd (stop I m)) = None"
  "config (snd (stop I m)) = config m"
  by (simp_all add: stop_unfold split: prod.splits)

lemma stop_feed:
  "fairPriceCalc (snd (stop I m))
     = (case feedDisconnect (fairPriceCalc m) of
          Inl e \<Rightarrow> fairPriceCalc m
        | Inr u \<Rightarrow> (fairPriceCalc m)\<lparr>feedConnected := False\<rparr>)"
  by (simp add: stop_unfold split: prod.splits)

lemma stop_feed_twice:
  "fairPriceCalc (snd (stop I (snd (stop I m)))) = fairPriceCalc (snd (stop I m))"
  by (simp add: stop_feed split: sum.splits)

lemma stop_exchange:
  "exchange (snd (stop I m))
     = (case unsubscribeOrderbook I (symbol (config m))
               (snd (cancelAllOrders I (symbol (config m)) (exchange m))) of
          (Inl e, x2) \<Rightarrow> x2
        | (Inr u, x2) \<Rightarrow> snd (disconnect I x2))"
  by (simp add: stop_unfold split: prod.splits sum.splits)

lemma stop_orders:
  "currentOrders (snd (stop I m))
     = (case fst (cancelAllOrders I (symbol (config m)) (exchange m)) of
          Inl e \<Rightarrow> currentOrders m
        | Inr u \<Rightarrow> [])"
  by (simp add: stop_unfold split: prod.splits sum.splits)

lemma stop_frame:
  "snd (stop I m)
     = m\<lparr>mainLoopInterval := None, orderSyncInterval := None, marginCheckInterval := None,
         state := Stopped,
         fairPriceCalc := fairPriceCalc (snd (stop I m)),
         exchange := exchange (snd (stop I m)),
         currentOrders := currentOrders (snd (stop I m))\<rparr>"
  by (cases m) (simp add: stop_unfold split: prod.splits sum.splits)

lemma stop_twice_frame:
  "(snd (stop I (snd (stop I m))))
        \<lparr>exchange := exchange (snd (stop I m)),
         currentOrders := currentOrders (snd (stop I m))\<rparr> = snd (stop I m)"
proof -
  define m1 where "m1 = snd (stop I m)"
  define m2 where "m2 = snd (stop I m1)"
  have f: "state m1 = Stopped" "mainLoopInterval m1 = None" "orderSyncInterval m1 = None"
      "marginCheckInterval m1 = None"
    by (simp_all add: m1_def stop_fields)
  have "fairPriceCalc m2 = fairPriceCalc m1"
    by (simp add: m1_def m2_def stop_feed_twice)
  with stop_frame [of I m1]
  have eq: "m2 = m1\<lparr>mainLoopInterval := None, orderSyncInterval := None,
         marginCheckInterval := None, state := Stopped, fairPriceCalc := fairPriceCalc m1,
         exchange := exchange m2, currentOrders := currentOrders m2\<rparr>"
    by (simp only: m2_def)
  have "m2\<lparr>exchange := exchange m1, currentOrders := currentOrders m1\<rparr> = m1"
    by (subst eq) (use f in \<open>cases m1, simp\<close>)
  then show ?thesis by (simp only: m1_def m2_def)
qed

text \<open>On the recording venue every request of \<open>stop\<close> is sent, whatever the venue rejects.\<close>

lemma stop_venue_calls:
  "calls (exchange (snd (stop venue m)))
     = calls (exchange m) @
       [CancelAllOrders (symbol (config m)), UnsubscribeOrderbook (symbol (config m)), Disconnect]"
  by (simp add: stop_exchange venue_cancelAllOrders venue_unsubscribeOrderbook venue_disconnect)

lemma stop_venue_orders:
  "currentOrders (snd (stop venue m))
     = (if faults (exchange m) (length (calls (exchange m))) then currentOrders m else [])"
  "resting (exchange (snd (stop venue m)))
     = (if faults (exchange m) (length (calls (exchange m))) then resting (exchange m)
        else filter (\<lambda>ord. o_symbol ord \<noteq> symbol (config m)) (resting (exchange m)))"
  "faults (exchange (snd (stop venue m))) = faults (exchange m)"
  by (simp_all add: stop_orders stop_exchange venue_cancelAllOrders venue_unsubscribeOrderbook
        venue_disconnect)

lemma stop_hyperliquid_calls:
  "calls (exchange (snd (stop hyperliquid_venue m)))
     = calls (exchange m) @
       (CancelAllOrders (symbol (config m)) #
        (if baseOf (symbol (config m)) = [] then []
         else [UnsubscribeOrderbook (baseOf (symbol (config m))), Disconnect]))"
  by (simp add: stop_exchange hyperliquid_venue_ops venue_cancelAllOrders venue_disconnect)

text \<open>
  C5 (as the code has it). From any state and on any exchange \<open>stop\<close> never throws and
  ends in state \<open>stopped\<close> with all three timers cleared. It always asks the exchange to
  cancel all orders of the symbol and then to unsubscribe the order book, whether or not
  the cancellation failed, and it always disconnects the price feed, whatever failed
  before. The session disconnect shares one guarded block with the unsubscription: it
  is requested exactly when the unsubscription call resolved. Both adapters absorb a
  failure of the unsubscription itself, so on a venue that answers as they do all three
  requests are sent whatever the venue rejects (on Hyperliquid for a symbol with a
  non-empty base). When the cancellation resolves, no tracked and no resting order of
  the symbol is left. A second call never throws either and changes nothing of the
  market maker but the exchange object and the tracked orders; after a cancellation
  that resolved it changes no order at all.
\<close>

theorem stop_always_ends_stopped:
  "fst (stop I m) = Inr ()
   \<and> state (snd (stop I m)) = Stopped
   \<and> mainLoopInterval (snd (stop I m)) = None
   \<and> orderSyncInterval (snd (stop I m)) = None
   \<and> marginCheckInterval (snd (stop I m)) = None
   \<and> exchange (snd (stop I m))
       = (case unsubscribeOrderbook I (symbol (config m))
                 (snd (cancelAllOrders I (symbol (config m)) (exchange m))) of
            (Inl e, x2) \<Rightarrow> x2
          | (Inr u, x2) \<Rightarrow> snd (disconnect I x2))
   \<and> (feedDisconnect (fairPriceCalc m) = Inr () \<longrightarrow>
        \<not> feedConnected (fairPriceCalc (snd (stop I m))))
   \<and> (fst (cancelAllOrders I (symbol (config m)) (exchange m)) = Inr () \<longrightarrow>
        currentOrders (snd (stop I m)) = [])
   \<and> fst (stop I (snd (stop I m))) = Inr ()
   \<and> (snd (stop I (snd (stop I m))))
        \<lparr>exchange := exchange (snd (stop I m)),
         currentOrders := currentOrders (snd (stop I m))\<rparr> = snd (stop I m)
   \<and> calls (exchange (snd (stop venue mv)))
       = calls (exchange mv) @
         [CancelAllOrders (symbol (config mv)), UnsubscribeOrderbook (symbol (config mv)),
          Disconnect]
   \<and> (baseOf (symbol (config mv)) \<noteq> [] \<longrightarrow>
        calls (exchange (snd (stop hyperliquid_venue mv)))
          = calls (exchange mv) @
            [CancelAllOrders (symbol (config mv)),
             UnsubscribeOrderbook (baseOf (symbol (config mv))), Disconnect])
   \<and> (\<not> faults (exchange mv) (length (calls (exchange mv))) \<longrightarrow>
        currentOrders (snd (stop venue mv)) = []
      \<and> filter (\<lambda>ord. o_symbol ord = symbol (config mv))
           (resting (exchange (snd (stop venue mv)))) = []
      \<and> currentOrders (snd (stop venue (snd (stop venue mv)))) = []
      \<and> resting (exchange (snd (stop venue (snd (stop venue mv)))))
          = resting (exchange (snd (stop venue mv))))"
proof (intro conjI impI)
  show "fst (stop I m) = Inr ()" by (rule stop_resolves)
  show "state (snd (stop I m)) = Stopped" by (rule stop_fields)
  show "mainLoopInterval (snd (stop I m)) = None" by (rule stop_fields)
  show "orderSyncInterval (snd (stop I m)) = None" by (rule stop_fields)
  show "marginCheckInterval (snd (stop I m)) = None" by (rule stop_fields)
  show "exchange (snd (stop I m))
       = (case unsubscribeOrderbook I (symbol (config m))
                 (snd (cancelAllOrders I (symbol (config m)) (exchange m))) of
            (Inl e, x2) \<Rightarrow> x2
          | (Inr u, x2) \<Rightarrow> snd (disconnect I x2))"
    by (rule stop_exchange)
  show "fst (stop I (snd (stop I m))) = Inr ()" by (rule stop_resolves)
  show "(snd (stop I (snd (stop I m))))
        \<lparr>exchange := exchange (snd (stop I m)),
         currentOrders := currentOrders (snd (stop I m))\<rparr> = snd (stop I m)"
    by (rule stop_twice_frame)
  show "calls (exchange (snd (stop venue mv)))
       = calls (exchange mv) @
         [CancelAllOrders (symbol (config mv)), UnsubscribeOrderbook (symbol (config mv)),
          Disconnect]"
    by (rule stop_venue_calls)
next
  assume "feedDisconnect (fairPriceCalc m) = Inr ()"
  then show "\<not> feedConnected (fairPriceCalc (snd (stop I m)))"
    by (simp add: stop_feed)
next
  assume "fst (cancelAllOrders I (symbol (config m)) (exchange m)) = Inr ()"
  then show "currentOrders (snd (stop I m)) = []"
    by (simp add: stop_orders)
next
  assume "baseOf (symbol (config mv)) \<noteq> []"
  then show "calls (exchange (snd (stop hyperliquid_venue mv)))
          = calls (exchange mv) @
            [CancelAllOrders (symbol (config mv)),
             UnsubscribeOrderbook (baseOf (symbol (config mv))), Disconnect]"
    by (simp add: stop_hyperliquid_calls)
next
  assume a: "\<not> faults (exchange mv) (length (calls (exchange mv)))"
  then show "currentOrders (snd (stop venue mv)) = []" by (simp add: stop_venue_orders)
  from a show "filter (\<lambda>ord. o_symbol ord = symbol (config mv))
           (resting (exchange (snd (stop venue mv)))) = []"
    by (simp add: stop_venue_orders)
  from a show "currentOrders (snd (stop venue (snd (stop venue mv)))) = []"
    by (simp add: stop_venue_orders)
  from a show "resting (exchange (snd (stop venue (snd (stop venue mv)))))
          = resting (exchange (snd (stop venue mv)))"
    by (simp add: stop_venue_orders stop_fields)
qed

theorem stop_always_ends_stopped_witness:
  "feedDisconnect (fairPriceCalc ((running_maker 0)\<lparr>exchange := deaf_venue, currentOrders := [resting_bid]\<rparr>))
     = Inr ()
   \<and> \<not> faults deaf_venue (length (calls deaf_venue))
   \<and> faults deaf_venue 1
   \<and> fst (cancelAllOrders venue ''BTC'' deaf_venue) = Inr ()
   \<and> baseOf ''BTC'' \<noteq> []
   \<and> fst (stop venue ((running_maker 0)\<lparr>exchange := deaf_venue, currentOrders := [resting_bid]\<rparr>))
       = Inr ()
   \<and> state (snd (stop venue ((running_maker 0)\<lparr>exchange := deaf_venue, currentOrders := [resting_bid]\<rparr>)))
       = Stopped
   \<and> calls (exchange (snd (stop venue
        ((running_maker 0)\<lparr>exchange := deaf_venue, currentOrders := [resting_bid]\<rparr>))))
       = [CancelAllOrders ''BTC'', UnsubscribeOrderbook ''BTC'', Disconnect]
   \<and> calls (exchange (snd (stop hyperliquid_venue
        ((running_maker 0)\<lparr>exchange := deaf_venue, currentOrders := [resting_bid]\<rparr>))))
       = [CancelAllOrders ''BTC'', UnsubscribeOrderbook ''BTC'', Disconnect]
   \<and> \<not> feedConnected (fairPriceCalc (snd (stop venue
        ((running_maker 0)\<lparr>exchange := deaf_venue, currentOrders := [resting_bid]\<rparr>))))
   \<and> currentOrders (snd (stop venue
        ((running_maker 0)\<lparr>exchange := deaf_venue, currentOrders := [resting_bid]\<rparr>))) = []
   \<and> resting (exchange (snd (stop venue
        ((running_maker 0)\<lparr>exchange := deaf_venue, currentOrders := [resting_bid]\<rparr>)))) = []
   \<and> resting (exchange (snd (stop venue (snd (stop venue
        ((running_maker 0)\<lparr>exchange := deaf_venue, currentOrders := [resting_bid]\<rparr>)))))) = []"
proof -
  let ?m = "(running_maker 0)\<lparr>exchange := deaf_venue, currentOrders := [resting_bid]\<rparr>"
  have h: "feedDisconnect (fairPriceCalc ?m) = Inr ()"
      "\<not> faults (exchange ?m) (length (calls (exchange ?m)))"
      "faults deaf_venue 1"
      "symbol (config ?m) = ''BTC''" "calls (exchange ?m) = []" "exchange ?m = deaf_venue"
      "resting (exchange ?m) = [resting_bid]" "o_symbol resting_bid = ''BTC''"
      "baseOf ''BTC'' \<noteq> []"
    by (simp_all add: running_maker_fields live_feed_def deaf_venue_def thin_venue_def
          quiet_venue_def btc_config_def resting_bid_def baseOf_def)
  have c: "fst (cancelAllOrders venue ''BTC'' deaf_venue) = Inr ()"
    by (simp add: venue_cancelAllOrders deaf_venue_def thin_venue_def quiet_venue_def)
  note t = stop_always_ends_stopped [of venue ?m ?m]
  have t1: "fst (stop venue ?m) = Inr ()" "state (snd (stop venue ?m)) = Stopped"
    using t by blast+
  have "calls (exchange (snd (stop venue ?m)))
       = calls (exchange ?m) @
         [CancelAllOrders (symbol (config ?m)), UnsubscribeOrderbook (symbol (config ?m)),
          Disconnect]"
    using t by blast
  then have t2: "calls (exchange (snd (stop venue ?m)))
          = [CancelAllOrders ''BTC'', UnsubscribeOrderbook ''BTC'', Disconnect]"
    by (simp only: h(4,5) append_Nil)
  have bb: "baseOf ''BTC'' = ''BTC''" by (simp add: baseOf_def)
  have "baseOf (symbol (config ?m)) \<noteq> []" by (simp only: h(4) bb) simp
  with t have "calls (exchange (snd (stop hyperliquid_venue ?m)))
          = calls (exchange ?m) @
            [CancelAllOrders (symbol (config ?m)),
             UnsubscribeOrderbook (baseOf (symbol (config ?m))), Disconnect]"
    by blast
  then have t3: "calls (exchange (snd (stop hyperliquid_venue ?m)))
          = [CancelAllOrders ''BTC'', UnsubscribeOrderbook ''BTC'', Disconnect]"
    by (simp only: h(4,5) bb append_Nil)
  have t4: "\<not> feedConnected (fairPriceCalc (snd (stop venue ?m)))"
    using t h(1) by blast
  have t5: "currentOrders (snd (stop venue ?m)) = []"
      "resting (exchange (snd (stop venue (snd (stop venue ?m)))))
          = resting (exchange (snd (stop venue ?m)))"
    using t h(2) by blast+
  have t6: "resting (exchange (snd (stop venue ?m))) = []"
    using h by (simp add: stop_venue_orders)
  show ?thesis using h c t1 t2 t3 t4 t5 t6 by simp
qed

text \<open>
  The claim as stated fails for one pair of steps. \<open>HyperliquidAdapter.unsubscribeOrderbook\<close>
  throws for a symbol with an empty base such as \<open>/USD\<close>; \<open>stop\<close>, called on a market maker
  constructed for that symbol, then sends the cancellation but never asks the exchange
  session to disconnect.
\<close>

theorem failed_unsubscribe_skips_disconnect:
  "baseOf (symbol (config slash_maker)) = []
   \<and> fst (unsubscribeOrderbook hyperliquid_venue (symbol (config slash_maker))
            (snd (cancelAllOrders hyperliquid_venue (symbol (config slash_maker))
                    (exchange slash_maker))))
       = Inl (Error ''Invalid symbol'')
   \<and> fst (stop hyperliquid_venue slash_maker) = Inr ()
   \<and> state (snd (stop hyperliquid_venue slash_maker)) = Stopped
   \<and> calls (exchange (snd (stop hyperliquid_venue slash_maker))) = [CancelAllOrders ''/USD'']
   \<and> Disconnect \<notin> set (calls (exchange (snd (stop hyperliquid_venue slash_maker))))"
proof -
  have b: "baseOf (symbol (config slash_maker)) = []"
      "symbol (config slash_maker) = ''/USD''" "calls (exchange slash_maker) = []"
    by (simp_all add: slash_maker_def new_MarketMaker_def btc_config_def baseOf_def
          quiet_venue_def)
  show ?thesis
    using b by (simp add: stop_resolves stop_fields stop_hyperliquid_calls hyperliquid_venue_ops)
qed

section \<open>Quotes in close mode\<close>

text \<open>
  C6. For a fair price above 0 and a signed exposure whose absolute value is at least
  \<open>closeThresholdUsd\<close>, \<open>generateQuotes\<close> quotes one side only, the reducing one: the ask
  for a long exposure and the bid for a short one. That side is reduce-only, is priced
  with the take-profit half-spread, and its size is \<open>min orderSizeUsd \<bar>exposure\<bar>\<close> converted
  to base units at that price; the other side is null, so exactly one order is emitted.
  For an exposure strictly below \<open>closeThresholdUsd\<close> and below \<open>maxPositionUsd\<close> both
  sides are non-null and two orders are emitted.
\<close>

theorem close_mode_quotes_reducing_side_only:
  "(0 < fairPrice \<and> \<bar>s\<bar> \<ge> closeThresholdUsd cfg \<and> s > 0 \<longrightarrow>
      bidPrice (spec_generateQuotes cfg mkt fairPrice s) = None
    \<and> bidSize (spec_generateQuotes cfg mkt fairPrice s) = None
    \<and> askPrice (spec_generateQuotes cfg mkt fairPrice s)
        = Some (roundUpTo (tickSize mkt) (fairPrice * (1 + takeProfitBps cfg / 10000)))
    \<and> askSize (spec_generateQuotes cfg mkt fairPrice s)
        = Some (toBaseUnits mkt (min (orderSizeUsd cfg) \<bar>s\<bar>)
                  (roundUpTo (tickSize mkt) (fairPrice * (1 + takeProfitBps cfg / 10000))))
    \<and> askReduceOnly (spec_generateQuotes cfg mkt fairPrice s)
    \<and> map r_side (spec_quoteToOrders cfg (spec_generateQuotes cfg mkt fairPrice s)) = [Sell]
    \<and> map r_reduceOnly (spec_quoteToOrders cfg (spec_generateQuotes cfg mkt fairPrice s)) = [True])
   \<and> (0 < fairPrice \<and> \<bar>s\<bar> \<ge> closeThresholdUsd cfg \<and> s < 0 \<longrightarrow>
      askPrice (spec_generateQuotes cfg mkt fairPrice s) = None
    \<and> askSize (spec_generateQuotes cfg mkt fairPrice s) = None
    \<and> bidPrice (spec_generateQuotes cfg mkt fairPrice s)
        = Some (roundDownTo (tickSize mkt) (fairPrice * (1 - takeProfitBps cfg / 10000)))
    \<and> bidSize (spec_generateQuotes cfg mkt fairPrice s)
        = Some (toBaseUnits mkt (min (orderSizeUsd cfg) \<bar>s\<bar>)
                  (roundDownTo (tickSize mkt) (fairPrice * (1 - takeProfitBps cfg / 10000))))
    \<and> bidReduceOnly (spec_generateQuotes cfg mkt fairPrice s)
    \<and> map r_side (spec_quoteToOrders cfg (spec_generateQuotes cfg mkt fairPrice s)) = [Buy]
    \<and> map r_reduceOnly (spec_quoteToOrders cfg (spec_generateQuotes cfg mkt fairPrice s)) = [True])
   \<and> (0 < fairPrice \<and> \<bar>s\<bar> < closeThresholdUsd cfg \<and> \<bar>s\<bar> < maxPositionUsd cfg \<longrightarrow>
      bidPrice (spec_generateQuotes cfg mkt fairPrice s) \<noteq> None
    \<and> bidSize (spec_generateQuotes cfg mkt fairPrice s) \<noteq> None
    \<and> askPrice (spec_generateQuotes cfg mkt fairPrice s) \<noteq> None
    \<and> askSize (spec_generateQuotes cfg mkt fairPrice s) \<noteq> None
    \<and> map r_side (spec_quoteToOrders cfg (spec_generateQuotes cfg mkt fairPrice s)) = [Buy, Sell])"
  by (auto simp add: spec_generateQuotes_def spec_quoteToOrders_def isCloseMode_def
        spec_isAtMax_def Let_def)

theorem close_mode_quotes_reducing_side_only_witness:
  "(0::real) < 50000 \<and> \<bar>600\<bar> \<ge> closeThresholdUsd btc_config \<and> (600::real) > 0
   \<and> bidPrice (spec_generateQuotes btc_config btc_market 50000 600) = None
   \<and> askPrice (spec_generateQuotes btc_config btc_market 50000 600) = Some 50025
   \<and> askReduceOnly (spec_generateQuotes btc_config btc_market 50000 600)
   \<and> askSize (spec_generateQuotes btc_config btc_market 50000 600)
       = Some (toBaseUnits btc_market (min 100 600) 50025)
   \<and> \<bar>- 600\<bar> \<ge> closeThresholdUsd btc_config \<and> (- 600::real) < 0
   \<and> askPrice (spec_generateQuotes btc_config btc_market 50000 (- 600)) = None
   \<and> bidPrice (spec_generateQuotes btc_config btc_market 50000 (- 600)) = Some 49975
   \<and> bidReduceOnly (spec_generateQuotes btc_config btc_market 50000 (- 600))
   \<and> \<bar>100\<bar> < closeThresholdUsd btc_config \<and> \<bar>100\<bar> < maxPositionUsd btc_config
   \<and> map r_side (spec_quoteToOrders btc_config
        (spec_generateQuotes btc_config btc_market 50000 100)) = [Buy, Sell]"
proof -
  from close_mode_quotes_reducing_side_only
         [where fairPrice = 50000 and s = 600 and cfg = btc_config and mkt = btc_market]
       close_mode_quotes_reducing_side_only
         [where fairPrice = 50000 and s = "- 600" and cfg = btc_config and mkt = btc_market]
       close_mode_quotes_reducing_side_only
         [where fairPrice = 50000 and s = 100 and cfg = btc_config and mkt = btc_market]
  show ?thesis by (simp add: btc_config_def btc_market_def roundUpTo_def roundDownTo_def)
qed

section \<open>The moving average stays within the samples\<close>

lemma between:
  fixes a e p lo hi :: real
  assumes "0 \<le> a" "a \<le> 1" "lo \<le> e" "e \<le> hi" "lo \<le> p" "p \<le> hi"
  shows "lo \<le> e + a * (p - e) \<and> e + a * (p - e) \<le> hi"
proof -
  have "0 \<le> (1 - a) * (e - lo)" "0 \<le> a * (p - lo)"
       "0 \<le> (1 - a) * (hi - e)" "0 \<le> a * (hi - p)"
    using assms by simp_all
  then show ?thesis by (simp add: algebra_simps)
qed

lemma smoothing_factor:
  fixes w dt :: real
  assumes "0 < w" "0 \<le> dt"
  shows "0 \<le> 1 - exp (- dt / w) \<and> 1 - exp (- dt / w) \<le> 1"
proof -
  from assms have "- dt / w \<le> 0" by (simp add: divide_nonpos_pos)
  then have "exp (- dt / w) \<le> 1" by simp
  moreover have "0 \<le> exp (- dt / w)" by simp
  ultimately show ?thesis by simp
qed

lemma onSamples_within:
  assumes "0 < w"
  shows "emaValue st = Some e \<Longrightarrow> lo \<le> e \<Longrightarrow> e \<le> hi \<Longrightarrow>
         sorted (lastSampleTs st # map fst xs) \<Longrightarrow>
         (\<forall>x\<in>set xs. lo \<le> snd x \<and> snd x \<le> hi) \<Longrightarrow>
         \<exists>e'. emaValue (onSamples w xs st) = Some e' \<and> lo \<le> e' \<and> e' \<le> hi"
proof (induction xs arbitrary: st e)
  case Nil
  then show ?case by simp
next
  case (Cons x xs)
  obtain t p where x: "x = (t, p)" by (cases x)
  let ?a = "1 - exp (- (t - lastSampleTs st) / w)"
  let ?st = "onSample w p t st"
  from Cons.prems(4) x have dt: "0 \<le> t - lastSampleTs st" by simp
  from smoothing_factor [OF assms dt] have a: "0 \<le> ?a" "?a \<le> 1" by simp_all
  from Cons.prems(5) x have p: "lo \<le> p" "p \<le> hi" by simp_all
  from between [OF a Cons.prems(2,3) p]
  have e': "lo \<le> e + ?a * (p - e)" "e + ?a * (p - e) \<le> hi" by simp_all
  have ema: "emaValue ?st = Some (e + ?a * (p - e))" and last: "lastSampleTs ?st = t"
    using Cons.prems(1) by (simp_all add: onSample_def Let_def)
  from Cons.prems(4) x last have srt: "sorted (lastSampleTs ?st # map fst xs)" by simp
  from Cons.prems(5) have rest: "\<forall>x\<in>set xs. lo \<le> snd x \<and> snd x \<le> hi" by simp
  from Cons.IH [OF ema e' srt rest] x show ?case by simp
qed

text \<open>
  C7. For a positive time constant and every non-empty sequence of samples whose
  timestamps do not decrease, the average after the whole sequence is defined and lies
  between the least and the greatest sample price seen; the first sample initialises it.
  Every prefix of a sequence is such a sequence, so the bound holds after each sample.
\<close>

theorem ema_within_sample_range:
  "emaValue (onSamples windowMs [(t, p)] (newFairPriceState deadline)) = Some p
   \<and> (0 < windowMs \<and> samples \<noteq> [] \<and> sorted (map fst samples) \<longrightarrow>
        (\<exists>e. emaValue (onSamples windowMs samples (newFairPriceState deadline)) = Some e
           \<and> Min (snd ` set samples) \<le> e \<and> e \<le> Max (snd ` set samples)))"
proof (intro conjI impI)
  show "emaValue (onSamples windowMs [(t, p)] (newFairPriceState deadline)) = Some p"
    by (simp add: onSample_def newFairPriceState_def)
next
  assume a: "0 < windowMs \<and> samples \<noteq> [] \<and> sorted (map fst samples)"
  then obtain t0 p0 rest where s: "samples = (t0, p0) # rest"
    by (cases samples) auto
  let ?st = "onSample windowMs p0 t0 (newFairPriceState deadline)"
  let ?lo = "Min (snd ` set samples)" and ?hi = "Max (snd ` set samples)"
  have st: "emaValue ?st = Some p0" "lastSampleTs ?st = t0"
    by (simp_all add: onSample_def newFairPriceState_def)
  have fin: "finite (snd ` set samples)" by simp
  have in_range: "\<forall>x\<in>set samples. ?lo \<le> snd x \<and> snd x \<le> ?hi"
    using fin by (simp add: Min_le)
  then have p0: "?lo \<le> p0" "p0 \<le> ?hi" and rest: "\<forall>x\<in>set rest. ?lo \<le> snd x \<and> snd x \<le> ?hi"
    using s by auto
  from a s st have srt: "sorted (lastSampleTs ?st # map fst rest)" by simp
  from a have w: "0 < windowMs" by simp
  from onSamples_within [OF w st(1) p0 srt rest] s
  show "\<exists>e. emaValue (onSamples windowMs samples (newFairPriceState deadline)) = Some e
           \<and> ?lo \<le> e \<and> e \<le> ?hi" by simp
qed

theorem ema_within_sample_range_witness:
  "(0::real) < 5000
   \<and> [(0, 100), (1000, 110), (1500, 105::real)] \<noteq> []
   \<and> sorted (map fst [(0::real, 100::real), (1000, 110), (1500, 105)])
   \<and> (\<exists>e. emaValue (onSamples 5000 [(0, 100), (1000, 110), (1500, 105)] (newFairPriceState 10000))
             = Some e \<and> 100 \<le> e \<and> e \<le> 110)"
  using ema_within_sample_range
          [where windowMs = 5000 and t = 0 and p = 100 and deadline = 10000
             and samples = "[(0, 100), (1000, 110), (1500, 105)]"]
  by simp

section \<open>Cancelling all orders twice\<close>

lemma af_request_healthy:
  "\<not> af_faults a (length (requests a)) \<Longrightarrow>
   af_request c eff a = (Inr (fst (eff (a\<lparr>requests := requests a @ [c]\<rparr>))),
                         snd (eff (a\<lparr>requests := requests a @ [c]\<rparr>)))"
  by (simp add: af_request_def Let_def split: prod.splits)

lemma getChIdForSymbol_healthy:
  assumes "\<forall>n. \<not> af_faults a n" and "resolves a sy = Some chId"
  shows "fst (getChIdForSymbol sy a) = Inr chId"
    and "openOrders (snd (getChIdForSymbol sy a)) = openOrders a"
    and "af_faults (snd (getChIdForSymbol sy a)) = af_faults a"
    and "filter isCancel (requests (snd (getChIdForSymbol sy a))) = filter isCancel (requests a)"
    and "resolves (snd (getChIdForSymbol sy a)) sy = Some chId"
  using assms
  by (auto simp add: getChIdForSymbol_def resolves_def getMarketBySymbol_def af_request_healthy
        io_defs isCancel_def update_conv' split: option.splits if_splits)

lemma cancelOpenOrdersOf_healthy:
  assumes "\<forall>n. \<not> af_faults a n"
  shows "fst (cancelOpenOrdersOf chId a) = Inr ()"
    and "openOrders (snd (cancelOpenOrdersOf chId a)) = (openOrders a)(chId := [])"
    and "af_faults (snd (cancelOpenOrdersOf chId a)) = af_faults a"
    and "symbolToChId (snd (cancelOpenOrdersOf chId a)) = symbolToChId a"
    and "listing (snd (cancelOpenOrdersOf chId a)) = listing a"
    and "openOrders a chId = [] \<Longrightarrow>
           filter isCancel (requests (snd (cancelOpenOrdersOf chId a)))
             = filter isCancel (requests a)"
  using assms
  by (auto simp add: cancelOpenOrdersOf_def getAccountCap_def fetchOpenOrders_def
        cancelOrders_def af_request_healthy io_defs isCancel_def filter_empty_conv fun_eq_iff)

lemma resolves_same:
  "symbolToChId a = symbolToChId b \<Longrightarrow> listing a = listing b \<Longrightarrow>
   resolves a sy = resolves b sy"
  by (simp add: resolves_def split: option.splits)

lemma aftermath_cancelAllOrders_symbol:
  "sy \<noteq> [] \<Longrightarrow>
   aftermath_cancelAllOrders (Some sy) a
     = (case getChIdForSymbol sy a of
          (Inl e, a') \<Rightarrow> (Inl e, a')
        | (Inr chId, a') \<Rightarrow> cancelOpenOrdersOf chId a')"
  by (simp add: aftermath_cancelAllOrders_def io_defs)

lemma aftermath_cancelAllOrders_healthy:
  assumes "sy \<noteq> []" and "\<forall>n. \<not> af_faults a n" and "resolves a sy = Some chId"
  shows "fst (aftermath_cancelAllOrders (Some sy) a) = Inr ()"
    and "openOrders (snd (aftermath_cancelAllOrders (Some sy) a)) = (openOrders a)(chId := [])"
    and "af_faults (snd (aftermath_cancelAllOrders (Some sy) a)) = af_faults a"
    and "resolves (snd (aftermath_cancelAllOrders (Some sy) a)) sy = Some chId"
    and "openOrders a chId = [] \<Longrightarrow>
           filter isCancel (requests (snd (aftermath_cancelAllOrders (Some sy) a)))
             = filter isCancel (requests a)"
proof -
  let ?a1 = "snd (getChIdForSymbol sy a)"
  note g = getChIdForSymbol_healthy [OF assms(2,3)]
  have eq: "aftermath_cancelAllOrders (Some sy) a = cancelOpenOrdersOf chId ?a1"
    using g(1) by (cases "getChIdForSymbol sy a") (simp add: aftermath_cancelAllOrders_symbol [OF assms(1)])
  have h1: "\<forall>n. \<not> af_faults ?a1 n" using assms(2) g(3) by simp
  note c = cancelOpenOrdersOf_healthy [OF h1, of chId]
  show "fst (aftermath_cancelAllOrders (Some sy) a) = Inr ()" by (simp add: eq c)
  show "openOrders (snd (aftermath_cancelAllOrders (Some sy) a)) = (openOrders a)(chId := [])"
    by (simp add: eq c g)
  show "af_faults (snd (aftermath_cancelAllOrders (Some sy) a)) = af_faults a"
    by (simp add: eq c g)
  show "resolves (snd (aftermath_cancelAllOrders (Some sy) a)) sy = Some chId"
    using g(5) resolves_same [OF c(4,5), of sy] by (simp add: eq)
  show "filter isCancel (requests (snd (aftermath_cancelAllOrders (Some sy) a)))
             = filter isCancel (requests a)" if "openOrders a chId = []"
    using that by (simp add: eq c g)
qed


lemma aftermath_no_cancel_when_empty:
  assumes "sy \<noteq> []" and "resolves a sy = Some chId" and "openOrders a chId = []"
  shows "filter isCancel (requests (snd (aftermath_cancelAllOrders (Some sy) a)))
           = filter isCancel (requests a)"
    and "openOrders (snd (aftermath_cancelAllOrders (Some sy) a)) = openOrders a"
  using assms
  by (auto simp add: aftermath_cancelAllOrders_symbol getChIdForSymbol_def resolves_def
        getMarketBySymbol_def cancelOpenOrdersOf_def getAccountCap_def fetchOpenOrders_def
        af_request_def io_defs isCancel_def Let_def
      split: option.splits if_splits prod.splits sum.splits)

lemma quiet_aftermath_facts:
  "resolves quiet_aftermath ''BTC'' = Some ''0xbtc''"
  "resolves busy_aftermath ''BTC'' = Some ''0xbtc''"
  "\<forall>n. \<not> af_faults quiet_aftermath n"
  "\<forall>n. \<not> af_faults busy_aftermath n"
  "openOrders quiet_aftermath ''0xbtc'' = []"
  "openOrders busy_aftermath ''0xbtc'' = [resting_bid]"
  "requests quiet_aftermath = []"
  by (simp_all add: resolves_def quiet_aftermath_def busy_aftermath_def)

text \<open>
  C8. For a symbol whose channel has no open order, the adapter's \<open>cancelAllOrders\<close>
  sends no cancellation and leaves the open orders as they are, and it resolves when the
  venue answers its queries. After one call on a venue that answers, the channel is
  empty, so a second call resolves, sends no further cancellation and changes no order:
  twice is the same as once. The market maker's own \<open>cancelAllOrders\<close> never throws, on
  any exchange; with an empty tracked list it changes nothing of the market maker but
  the exchange object, and once the exchange has accepted, the tracked list is empty.
\<close>

theorem cancelAllOrders_on_empty_set_is_noop:
  "(sy \<noteq> [] \<and> resolves a sy = Some chId \<and> openOrders a chId = [] \<longrightarrow>
      filter isCancel (requests (snd (aftermath_cancelAllOrders (Some sy) a)))
        = filter isCancel (requests a)
    \<and> openOrders (snd (aftermath_cancelAllOrders (Some sy) a)) = openOrders a
    \<and> ((\<forall>n. \<not> af_faults a n) \<longrightarrow> fst (aftermath_cancelAllOrders (Some sy) a) = Inr ()))
   \<and> (sy \<noteq> [] \<and> (\<forall>n. \<not> af_faults a n) \<and> resolves a sy = Some chId \<longrightarrow>
      fst (aftermath_cancelAllOrders (Some sy) (snd (aftermath_cancelAllOrders (Some sy) a)))
        = Inr ()
    \<and> openOrders (snd (aftermath_cancelAllOrders (Some sy)
                          (snd (aftermath_cancelAllOrders (Some sy) a))))
        = openOrders (snd (aftermath_cancelAllOrders (Some sy) a))
    \<and> filter isCancel (requests (snd (aftermath_cancelAllOrders (Some sy)
                                         (snd (aftermath_cancelAllOrders (Some sy) a)))))
        = filter isCancel (requests (snd (aftermath_cancelAllOrders (Some sy) a))))
   \<and> fst (mm_cancelAllOrders I m) = Inr ()
   \<and> (currentOrders m = [] \<longrightarrow>
        snd (mm_cancelAllOrders I m)
          = m\<lparr>exchange := snd (cancelAllOrders I (symbol (config m)) (exchange m))\<rparr>)
   \<and> (fst (cancelAllOrders I (symbol (config m)) (exchange m)) = Inr () \<longrightarrow>
        currentOrders (snd (mm_cancelAllOrders I m)) = [])"
proof (intro conjI impI)
  assume h: "sy \<noteq> [] \<and> resolves a sy = Some chId \<and> openOrders a chId = []"
  then have h': "sy \<noteq> []" "resolves a sy = Some chId" "openOrders a chId = []" by simp_all
  show "filter isCancel (requests (snd (aftermath_cancelAllOrders (Some sy) a)))
        = filter isCancel (requests a)"
    by (rule aftermath_no_cancel_when_empty(1) [OF h'])
  show "openOrders (snd (aftermath_cancelAllOrders (Some sy) a)) = openOrders a"
    by (rule aftermath_no_cancel_when_empty(2) [OF h'])
  assume "\<forall>n. \<not> af_faults a n"
  from aftermath_cancelAllOrders_healthy(1) [OF h'(1) this h'(2)]
  show "fst (aftermath_cancelAllOrders (Some sy) a) = Inr ()" .
next
  assume h: "sy \<noteq> [] \<and> (\<forall>n. \<not> af_faults a n) \<and> resolves a sy = Some chId"
  then have h': "sy \<noteq> []" "\<forall>n. \<not> af_faults a n" "resolves a sy = Some chId" by simp_all
  let ?a1 = "snd (aftermath_cancelAllOrders (Some sy) a)"
  note r = aftermath_cancelAllOrders_healthy [OF h']
  have h1: "sy \<noteq> []" "\<forall>n. \<not> af_faults ?a1 n" "resolves ?a1 sy = Some chId"
    using h' r(3,4) by simp_all
  have e1: "openOrders ?a1 chId = []" by (simp add: r(2))
  note r1 = aftermath_cancelAllOrders_healthy [OF h1]
  show "fst (aftermath_cancelAllOrders (Some sy) ?a1) = Inr ()" by (rule r1(1))
  show "openOrders (snd (aftermath_cancelAllOrders (Some sy) ?a1)) = openOrders ?a1"
    using e1 by (simp add: r1(2) fun_eq_iff)
  show "filter isCancel (requests (snd (aftermath_cancelAllOrders (Some sy) ?a1)))
        = filter isCancel (requests ?a1)" by (rule r1(5) [OF e1])
next
  show "fst (mm_cancelAllOrders I m) = Inr ()" by (rule mm_cancelAllOrders_fields)
next
  assume "currentOrders m = []"
  then show "snd (mm_cancelAllOrders I m)
          = m\<lparr>exchange := snd (cancelAllOrders I (symbol (config m)) (exchange m))\<rparr>"
    by (cases m) (auto simp add: mm_cancelAllOrders_eq split: prod.splits sum.splits)
next
  assume "fst (cancelAllOrders I (symbol (config m)) (exchange m)) = Inr ()"
  then show "currentOrders (snd (mm_cancelAllOrders I m)) = []"
    by (auto simp add: mm_cancelAllOrders_eq split: prod.splits sum.splits)
qed

theorem cancelAllOrders_on_empty_set_is_noop_witness:
  "''BTC'' \<noteq> []
   \<and> resolves quiet_aftermath ''BTC'' = Some ''0xbtc''
   \<and> openOrders quiet_aftermath ''0xbtc'' = []
   \<and> (\<forall>n. \<not> af_faults quiet_aftermath n)
   \<and> fst (aftermath_cancelAllOrders (Some ''BTC'') quiet_aftermath) = Inr ()
   \<and> filter isCancel (requests (snd (aftermath_cancelAllOrders (Some ''BTC'') quiet_aftermath))) = []
   \<and> openOrders (snd (aftermath_cancelAllOrders (Some ''BTC'') quiet_aftermath))
       = openOrders quiet_aftermath
   \<and> (\<forall>n. \<not> af_faults busy_aftermath n)
   \<and> resolves busy_aftermath ''BTC'' = Some ''0xbtc''
   \<and> openOrders busy_aftermath ''0xbtc'' = [resting_bid]
   \<and> fst (aftermath_cancelAllOrders (Some ''BTC'')
            (snd (aftermath_cancelAllOrders (Some ''BTC'') busy_aftermath))) = Inr ()
   \<and> openOrders (snd (aftermath_cancelAllOrders (Some ''BTC'')
                        (snd (aftermath_cancelAllOrders (Some ''BTC'') busy_aftermath))))
       = openOrders (snd (aftermath_cancelAllOrders (Some ''BTC'') busy_aftermath))
   \<and> currentOrders (running_maker 0) = []
   \<and> fst (cancelAllOrders venue (symbol (config (running_maker 0))) (exchange (running_maker 0)))
       = Inr ()
   \<and> fst (mm_cancelAllOrders venue (running_maker 0)) = Inr ()
   \<and> snd (mm_cancelAllOrders venue (running_maker 0))
       = (running_maker 0)\<lparr>exchange := quiet_venue\<lparr>calls := [CancelAllOrders ''BTC'']\<rparr>\<rparr>"
proof -
  have v: "cancelAllOrders venue (symbol (config (running_maker 0))) (exchange (running_maker 0))
      = (Inr (), quiet_venue\<lparr>calls := [CancelAllOrders ''BTC'']\<rparr>)"
    by (simp add: venue_cancelAllOrders running_maker_fields quiet_venue_def btc_config_def)
  from cancelAllOrders_on_empty_set_is_noop
         [where sy = "''BTC''" and a = quiet_aftermath and chId = "''0xbtc''"
            and I = venue and m = "running_maker 0"]
       cancelAllOrders_on_empty_set_is_noop
         [where sy = "''BTC''" and a = busy_aftermath and chId = "''0xbtc''"
            and I = venue and m = "running_maker 0"]
       quiet_aftermath_facts v
  show ?thesis by (simp add: running_maker_fields)
qed

end
